theory Spec2Isabelle
  imports Main "HOL-Library.Word" "HOL-Library.Sublist"
begin

section \<open>AST types (include/common/ast/type.h)\<close>

type_synonym u32 = "32 word"

text \<open>
  Modelled from the spec: \<open>ValType\<close> of common/types.h, which is not among the sources.
  Section 3 of the specification gives the four value types.
\<close>

datatype ValType = I32 | I64 | F32 | F64

text \<open>
  Modelled from the spec: \<open>ValMut\<close> of common/types.h. Section 3: the mutability flag
  distinguishes \<open>Const\<close> from \<open>Var\<close> globals.
\<close>

datatype ValMut = Const | Var

text \<open>
  Modelled from the spec: \<open>ElemType\<close> of common/types.h. Section 3: the enumeration has the
  single variant \<open>FuncRef\<close>.
\<close>

datatype ElemType = FuncRef

text \<open>
  Modelled from the spec: \<open>ExternalType\<close> of common/types.h. Section 3: the four kinds of
  imports and exports.
\<close>

datatype ExternalType = Function | Table | Memory | Global

text \<open>
  Modelled from the spec: \<open>ErrCode\<close> of common/types.h. Section 7 lists the error kinds;
  the sources name \<open>ModuleNameConflict\<close> and \<open>IncompatibleImportType\<close>.
\<close>

datatype ErrCode =
    ModuleNameConflict
  | UnknownImport
  | IncompatibleImportType
  | InvalidInitializer
  | TableOutOfRange
  | MemoryOutOfRange
  | DuplicateExportName
  | BadAddress
  | StartTrap

text \<open>\<open>Expect<T>\<close>: either the value or the error code (\<open>Unexpect\<close>).\<close>

type_synonym 'a Expect = "ErrCode + 'a"

text \<open>
  What a piece of code does when it does not return a value: it returns \<open>Unexpect\<close> of an
  error code, or it has no defined behaviour. The sources read an uninitialised member,
  and dereference an \<open>Expect\<close> and a pointer, without a test; such a read is \<open>Undefined\<close>
  when there is nothing to read.
\<close>

datatype Failure = Unexpect ErrCode | Undefined

subsection \<open>Limit\<close>

text \<open>\<open>enum class LimitType : uint8_t { HasMin = 0x00, HasMinMax = 0x01 }\<close>\<close>

datatype LimitType = HasMin | HasMinMax

text \<open>
  The private data of a \<open>Limit\<close> node. The members are called \<open>Type\<close>, \<open>Min\<close> and
  \<open>Max\<close> in the source; the suffix keeps them apart from the lattice operators of HOL.
  The members have no default initialiser. Both constructors with arguments initialise
  \<open>Type\<close> and \<open>Min\<close>; \<open>Max\<close> is initialised by one of them only, so it is optional
  here, \<open>None\<close> as long as nothing was stored in it.
\<close>

record Limit =
  TypeL :: LimitType
  MinL :: u32
  MaxL :: "u32 option"

text \<open>
  \<open>Limit(const uint32_t MinVal) : Type(LimitType::HasMin), Min(MinVal) {}\<close>
  The member \<open>Max\<close> is not in the initialiser list: it is left uninitialised.
\<close>

definition Limit1 :: "u32 \<Rightarrow> Limit" where
  "Limit1 MinVal = \<lparr>TypeL = HasMin, MinL = MinVal, MaxL = None\<rparr>"

text \<open>
  \<open>Limit(const uint32_t MinVal, const uint32_t MaxVal)
      : Type(LimitType::HasMinMax), Min(MinVal), Max(MaxVal) {}\<close>
  Nothing compares the two arguments.
\<close>

definition Limit2 :: "u32 \<Rightarrow> u32 \<Rightarrow> Limit" where
  "Limit2 MinVal MaxVal = \<lparr>TypeL = HasMinMax, MinL = MinVal, MaxL = Some MaxVal\<rparr>"

text \<open>\<open>bool hasMax() const { return Type == LimitType::HasMinMax; }\<close>\<close>

definition hasMax :: "Limit \<Rightarrow> bool" where
  "hasMax L = (TypeL L = HasMinMax)"

text \<open>\<open>uint32_t getMin() const { return Min; }\<close>\<close>

definition getMin :: "Limit \<Rightarrow> u32" where
  "getMin L = MinL L"

text \<open>
  \<open>uint32_t getMax() const { return Max; }\<close> There is no test of \<open>Type\<close>: the member is
  read whatever the limit is. Reading it while it is uninitialised yields an indeterminate
  value, which is undefined behaviour.
\<close>

definition getMax :: "Limit \<Rightarrow> Failure + u32" where
  "getMax L = (case MaxL L of None \<Rightarrow> Inl Undefined | Some MaxVal \<Rightarrow> Inr MaxVal)"

subsection \<open>FunctionType, MemoryType, TableType, GlobalType\<close>

record FunctionType =
  ParamTypes :: "ValType list"
  ReturnTypes :: "ValType list"

definition getParamTypes :: "FunctionType \<Rightarrow> ValType list" where
  "getParamTypes F = ParamTypes F"

definition getReturnTypes :: "FunctionType \<Rightarrow> ValType list" where
  "getReturnTypes F = ReturnTypes F"

text \<open>
  A \<open>std::unique_ptr<T>\<close> is an optional value, \<open>None\<close> for the null pointer. The
  \<open>void *Symbol\<close> of a compiled module is an opaque handle, \<open>None\<close> for \<open>nullptr\<close>.
\<close>

record MemoryType =
  MemoryLimit :: "Limit option"
  MemorySymbol :: "nat option"

record TableType =
  TableElemType :: ElemType
  TableLimit :: "Limit option"

record GlobalType =
  GlobalValType :: ValType
  GlobalMut :: ValMut

section \<open>Import and export descriptions (include/common/ast/description.h)\<close>

text \<open>
  \<open>using ExtContentType =
      std::variant<std::unique_ptr<uint32_t>, std::unique_ptr<TableType>,
                   std::unique_ptr<MemoryType>, std::unique_ptr<GlobalType>>;\<close>
  One constructor for each alternative, in the order of the variant.
\<close>

datatype ExtContentType =
    Alt_uint32 "u32 option"
  | Alt_TableType "TableType option"
  | Alt_MemoryType "MemoryType option"
  | Alt_GlobalType "GlobalType option"

text \<open>\<open>std::variant::index\<close>: the position of the alternative that is held.\<close>

fun index :: "ExtContentType \<Rightarrow> nat" where
  "index (Alt_uint32 _) = 0"
| "index (Alt_TableType _) = 1"
| "index (Alt_MemoryType _) = 2"
| "index (Alt_GlobalType _) = 3"

record ImportDesc =
  ExtType :: ExternalType
  ModName :: string
  ExtName :: string
  ExtContent :: ExtContentType

record ExportDesc =
  ExpExtType :: ExternalType
  ExpExtName :: string
  ExtIdx :: u32
  Symbol :: "nat option"

text \<open>
  \<open>template <typename T> Expect<T *> getExternalContent() const {
    if (auto Ptr = std::get_if<std::unique_ptr<T>>(&ExtContent)) {
      return Ptr->get();
    } else {
      return Unexpect(ErrCode::IncompatibleImportType);
    }
  }\<close>
  The template has four instances, one for each type \<open>T\<close> for which
  \<open>std::unique_ptr<T>\<close> is an alternative of the variant; for any other \<open>T\<close> the call of
  \<open>std::get_if\<close> does not compile. The result \<open>Ptr->get()\<close> is the raw pointer held,
  which may be null.
\<close>

definition getExternalContent_uint32 :: "ImportDesc \<Rightarrow> (u32 option) Expect" where
  "getExternalContent_uint32 D =
     (case ExtContent D of Alt_uint32 Ptr \<Rightarrow> Inr Ptr | _ \<Rightarrow> Inl IncompatibleImportType)"

definition getExternalContent_TableType :: "ImportDesc \<Rightarrow> (TableType option) Expect" where
  "getExternalContent_TableType D =
     (case ExtContent D of Alt_TableType Ptr \<Rightarrow> Inr Ptr | _ \<Rightarrow> Inl IncompatibleImportType)"

definition getExternalContent_MemoryType :: "ImportDesc \<Rightarrow> (MemoryType option) Expect" where
  "getExternalContent_MemoryType D =
     (case ExtContent D of Alt_MemoryType Ptr \<Rightarrow> Inr Ptr | _ \<Rightarrow> Inl IncompatibleImportType)"

definition getExternalContent_GlobalType :: "ImportDesc \<Rightarrow> (GlobalType option) Expect" where
  "getExternalContent_GlobalType D =
     (case ExtContent D of Alt_GlobalType Ptr \<Rightarrow> Inr Ptr | _ \<Rightarrow> Inl IncompatibleImportType)"

section \<open>Runtime data: module instance, Store and Stack\<close>

text \<open>
  Modelled from the spec: the value representation of the Stack (common/value.h is not
  among the sources). Section 3 calls the entries typed scalars; the two floating-point
  kinds are kept as their bit patterns.
\<close>

datatype ValVariant = VI32 u32 | VI64 "64 word" | VF32 u32 | VF64 "64 word"

text \<open>
  Modelled from the spec: \<open>InstantiateMode\<close> of interpreter/interpreter.h, which is not among
  the sources. Section 4.5 names the two modes \<open>Instantiate\<close> and \<open>Import\<close>.
\<close>

datatype InstantiateMode = Instantiate | Import

subsection \<open>Module instance\<close>

text \<open>
  Modelled from the spec: \<open>Runtime::Instance::ModuleInstance\<close> (runtime/instance/module.h
  is not among the sources). Section 3 lists the fields: the name, the instance's own address
  in the Store, the address spaces of functions, tables, memories and globals, a copy of the
  function types, the export map and the optional start index.
\<close>

record ModuleInstance =
  ModInstName :: string
  Addr :: u32
  FuncTypes :: "(ValType list \<times> ValType list) list"
  FuncAddrs :: "u32 list"
  TableAddrs :: "u32 list"
  MemAddrs :: "u32 list"
  GlobalAddrs :: "u32 list"
  ExportMap :: "(string \<times> ExternalType \<times> u32) list"
  StartIdx :: "u32 option"

text \<open>Modelled from the spec: \<open>ModuleInstance(Name)\<close>, a fresh instance carrying the name.\<close>

definition ModuleInstance_new :: "string \<Rightarrow> ModuleInstance" where
  "ModuleInstance_new Name =
     \<lparr>ModInstName = Name, Addr = 0, FuncTypes = [], FuncAddrs = [], TableAddrs = [],
      MemAddrs = [], GlobalAddrs = [], ExportMap = [], StartIdx = None\<rparr>"

text \<open>
  Modelled from the spec: \<open>addFuncType\<close> copies one (params, results) pair into the
  instance, preserving order (step 4 of section 4.5).
\<close>

definition addFuncType :: "ValType list \<Rightarrow> ValType list \<Rightarrow> ModuleInstance \<Rightarrow> ModuleInstance" where
  "addFuncType Params Returns MI = MI\<lparr>FuncTypes := FuncTypes MI @ [(Params, Returns)]\<rparr>"

text \<open>
  Modelled from the spec: \<open>setStartIdx\<close> records the local index of the start function in
  the instance (section 3, step 15 of section 4.5).
\<close>

definition setStartIdx :: "u32 \<Rightarrow> ModuleInstance \<Rightarrow> ModuleInstance" where
  "setStartIdx Idx MI = MI\<lparr>StartIdx := Some Idx\<rparr>"

text \<open>
  Modelled from the spec: \<open>getStartAddr\<close> resolves the start index through the function
  address space of the instance to a Store address (step 15 of section 4.5); there is no
  address when no index is set or the index is outside the address space.
\<close>

definition getStartAddr :: "ModuleInstance \<Rightarrow> u32 option" where
  "getStartAddr MI =
     (case StartIdx MI of
        None \<Rightarrow> None
      | Some Idx \<Rightarrow> if unat Idx < length (FuncAddrs MI) then Some (FuncAddrs MI ! unat Idx) else None)"

subsection \<open>Store\<close>

text \<open>
  Modelled from the spec: the function instance (runtime/instance/function.h is not among the
  sources). Section 4.1: a function is allocated with its type index, the address of its
  module and its body or host handle, which is opaque here.
\<close>

record FunctionInstance =
  FuncModAddr :: u32
  FuncTypeIdx :: u32
  FuncBody :: nat

text \<open>
  Modelled from the spec: the table instance (runtime/instance/table.h is not among the
  sources). Section 4.1 and step 8 of section 4.5: allocated with its type; a slot is a hole
  or a function address.
\<close>

record TableInstance =
  TabType :: TableType
  TabElems :: "u32 option list"

text \<open>
  Modelled from the spec: the memory instance (runtime/instance/memory.h is not among the
  sources). Section 4.1 and step 9 of section 4.5: allocated with its type; the content is
  bytes.
\<close>

record MemoryInstance =
  MemType :: MemoryType
  MemData :: "8 word list"

text \<open>
  Modelled from the spec: the global instance (runtime/instance/global.h is not among the
  sources). Section 4.1: allocated with its type and its initial value.
\<close>

record GlobalInstance =
  GlobType :: GlobalType
  GlobValue :: ValVariant

text \<open>
  Modelled from the spec: \<open>Runtime::StoreManager\<close> (runtime/storemgr.h is not among the
  sources). Section 3: four arenas for functions, tables, memories and globals, a module
  arena, and a map from names to module addresses; an address is the index into its arena.
  Section 4.1 says that the two ways to enter a module differ only in the bucket that
  publishes the name, so every binding of the name map records its bucket.
\<close>

record StoreManager =
  FuncInsts :: "FunctionInstance list"
  TabInsts :: "TableInstance list"
  MemInsts :: "MemoryInstance list"
  GlobInsts :: "GlobalInstance list"
  ModInsts :: "ModuleInstance list"
  ModMap :: "(string \<times> InstantiateMode \<times> u32) list"

text \<open>
  Modelled from the spec: \<open>reset()\<close> purges all arenas and is used between top-level
  instantiations of a fresh program (section 4.1): the Store it leaves is the empty one. A
  binding of the name map is an address into the module arena (section 3), so the bindings
  go with the instances they point to.
\<close>

definition StoreManager_reset :: "StoreManager \<Rightarrow> StoreManager" where
  "StoreManager_reset S =
     S\<lparr>FuncInsts := [], TabInsts := [], MemInsts := [], GlobInsts := [], ModInsts := [],
       ModMap := []\<rparr>"

text \<open>
  Modelled from the spec: what \<open>pushModule\<close> and \<open>importModule\<close> have in common. Section
  4.1: both append the instance to the module arena and return the new address, and they
  differ only in the bucket that publishes the name. The instance learns its own address
  (section 3).
\<close>

definition enterModule :: "InstantiateMode \<Rightarrow> StoreManager \<Rightarrow> ModuleInstance \<Rightarrow> u32 \<times> StoreManager" where
  "enterModule Bucket S MI =
     (let A = of_nat (length (ModInsts S))
      in (A, S\<lparr>ModInsts := ModInsts S @ [MI\<lparr>Addr := A\<rparr>],
               ModMap := (ModInstName MI, Bucket, A) # ModMap S\<rparr>))"

text \<open>
  Modelled from the spec: \<open>pushModule\<close>, the entry point of the mode \<open>Instantiate\<close>
  (sections 4.1 and 4.5).
\<close>

definition pushModule :: "StoreManager \<Rightarrow> ModuleInstance \<Rightarrow> u32 \<times> StoreManager" where
  "pushModule S MI = enterModule Instantiate S MI"

text \<open>
  Modelled from the spec: \<open>importModule\<close>, the entry point of the mode \<open>Import\<close>
  (sections 4.1 and 4.5).
\<close>

definition importModule :: "StoreManager \<Rightarrow> ModuleInstance \<Rightarrow> u32 \<times> StoreManager" where
  "importModule S MI = enterModule Import S MI"

text \<open>
  Modelled from the spec: \<open>find_module(name)\<close> of section 4.1, the lookup of a name in the
  name map of the Store.
\<close>

definition find_module :: "StoreManager \<Rightarrow> string \<Rightarrow> u32 option" where
  "find_module S Name = map_option snd (map_of (ModMap S) Name)"

text \<open>
  Modelled from the spec: \<open>getModule\<close> fails with \<open>BadAddress\<close> when the index is out of
  range (section 4.1).
\<close>

definition getModule :: "StoreManager \<Rightarrow> u32 \<Rightarrow> ModuleInstance Expect" where
  "getModule S A = (if unat A < length (ModInsts S) then Inr (ModInsts S ! unat A) else Inl BadAddress)"

text \<open>
  Modelled from the spec: \<open>getFunction\<close> fails with \<open>BadAddress\<close> when the index is out of
  range (section 4.1).
\<close>

definition getFunction :: "StoreManager \<Rightarrow> u32 \<Rightarrow> FunctionInstance Expect" where
  "getFunction S A = (if unat A < length (FuncInsts S) then Inr (FuncInsts S ! unat A) else Inl BadAddress)"

text \<open>
  Modelled from the spec: \<open>allocate_function\<close> appends a function to its arena and returns
  the new address (section 4.1).
\<close>

definition allocateFunction :: "StoreManager \<Rightarrow> FunctionInstance \<Rightarrow> u32 \<times> StoreManager" where
  "allocateFunction S F = (of_nat (length (FuncInsts S)), S\<lparr>FuncInsts := FuncInsts S @ [F]\<rparr>)"

subsection \<open>Stack and instruction provider\<close>

text \<open>
  Modelled from the spec: the entries of \<open>Runtime::StackManager\<close> (runtime/stackmgr.h is not
  among the sources). Section 3: an entry is a value or a frame; a frame records the module
  address, the arity and the co-arity.
\<close>

datatype StackEntry = ValueEntry ValVariant | FrameEntry u32 u32 u32

text \<open>
  Modelled from the spec: \<open>Runtime::StackManager\<close>. Section 3: an ordered sequence of
  entries. The head of the list is the top of the stack.
\<close>

type_synonym StackManager = "StackEntry list"

text \<open>Modelled from the spec: \<open>reset\<close> of the Stack clears it (section 4.2, step 1 of section 4.5).\<close>

definition StackManager_reset :: "StackManager \<Rightarrow> StackManager" where
  "StackManager_reset S = []"

text \<open>
  Modelled from the spec: \<open>pushFrame\<close> puts a frame with the module address, the arity and
  the co-arity on top of the stack (section 4.2).
\<close>

definition pushFrame :: "StackManager \<Rightarrow> u32 \<Rightarrow> u32 \<Rightarrow> u32 \<Rightarrow> StackManager" where
  "pushFrame S ModuleAddr Arity Coarity = FrameEntry ModuleAddr Arity Coarity # S"

text \<open>Modelled from the spec: the entries above the topmost frame are values (section 3).\<close>

fun isValueEntry :: "StackEntry \<Rightarrow> bool" where
  "isValueEntry (ValueEntry _) = True"
| "isValueEntry (FrameEntry _ _ _) = False"

text \<open>
  Modelled from the spec: \<open>popFrame\<close> truncates the values back to the topmost frame and then
  discards the frame (section 4.2); a stack without a frame is left empty.
\<close>

definition popFrame :: "StackManager \<Rightarrow> StackManager" where
  "popFrame S = (case dropWhile isValueEntry S of [] \<Rightarrow> [] | _ # Rest \<Rightarrow> Rest)"

text \<open>
  Modelled from the spec: the instruction provider (not among the sources) keeps scratch
  state (step 1 of section 4.5); the scratch is a list of opaque entries.
\<close>

type_synonym InstrProvider = "nat list"

text \<open>
  Modelled from the spec: \<open>reset\<close> of the instruction provider clears the scratch (step 1 of
  section 4.5).
\<close>

definition InstrProvider_reset :: "InstrProvider \<Rightarrow> InstrProvider" where
  "InstrProvider_reset P = []"

section \<open>The AST module\<close>

text \<open>
  Modelled from the spec: \<open>AST::Module\<close> and its sections (common/ast/module.h and
  section.h are not among the sources). Section 3: a bag of optional sections, \<open>None\<close>
  where the accessor returns \<open>nullptr\<close>. The entries of the Type, Import, Table, Memory and
  Export sections are the nodes of type.h and description.h; the Function section holds one
  type index for each function and the Start section one function index. The entries of the
  Global, Element, Code and Data sections are only handed on by \<open>instantiate\<close>, so their
  types are parameters. The constructor of a compiled module is an opaque function pointer.
\<close>

record ('c, 'g, 'e, 'd) Module =
  TypeSec :: "FunctionType list option"
  ImportSec :: "ImportDesc list option"
  FunctionSec :: "u32 list option"
  TableSec :: "TableType list option"
  MemorySec :: "MemoryType list option"
  GlobalSec :: "'g list option"
  ExportSec :: "ExportDesc list option"
  StartSec :: "u32 option"
  ElementSec :: "'e list option"
  CodeSec :: "'c list option"
  DataSec :: "'d list option"
  Ctor :: "nat option"

section \<open>The interpreter (lib/interpreter/instantiate/module.cpp)\<close>

text \<open>
  The state \<open>instantiate\<close> works on: the Store it is given by reference and the members
  \<open>StackMgr\<close>, \<open>InstrPdr\<close> and \<open>InsMode\<close> of the interpreter. The record is extensible;
  \<open>instantiate\<close> never reads or writes the extension, which stands for whatever else the
  functions it calls may touch.
\<close>

record Machine =
  StoreMgr :: StoreManager
  StackMgr :: StackManager
  InstrPdr :: InstrProvider
  InsMode :: InstantiateMode

text \<open>
  A call on the state either returns a value or fails, with an error code or by undefined
  behaviour: \<open>instantiate\<close> dereferences an \<open>Expect\<close> and the pointer to the module
  instance without a test. Both ways to fail are on the left of the sum, and the state the
  call leaves comes with the result.
\<close>

type_synonym ('a, 's) Step = "'s \<Rightarrow> (Failure + 'a) \<times> 's"

text \<open>
  Sequencing as \<open>instantiate\<close> writes it: \<open>if (auto Res = f(...); !Res) return
  Unexpect(Res);\<close> stops at the first failure with the state as it is then, and goes on with
  the value otherwise.
\<close>

definition returnE :: "'a \<Rightarrow> ('a, 's) Step" where
  "returnE x s = (Inr x, s)"

definition bindE :: "('a, 's) Step \<Rightarrow> ('a \<Rightarrow> ('b, 's) Step) \<Rightarrow> ('b, 's) Step" where
  "bindE m k s = (case m s of (Inl f, s') \<Rightarrow> (Inl f, s') | (Inr x, s') \<Rightarrow> k x s')"

definition thenE :: "(unit, 's) Step \<Rightarrow> ('b, 's) Step \<Rightarrow> ('b, 's) Step" where
  "thenE m k = bindE m (\<lambda>_. k)"

text \<open>A statement that changes the state and cannot fail.\<close>

definition doE :: "('s \<Rightarrow> 's) \<Rightarrow> (unit, 's) Step" where
  "doE f s = (Inr (), f s)"

text \<open>\<open>if (Sec != nullptr) { if (auto Res = f(*Sec); !Res) return Unexpect(Res); }\<close>\<close>

definition whenSec :: "'x option \<Rightarrow> ('x \<Rightarrow> (unit, 's) Step) \<Rightarrow> (unit, 's) Step" where
  "whenSec Sec f = (case Sec of None \<Rightarrow> returnE () | Some x \<Rightarrow> f x)"

text \<open>
  \<open>ModInst\<close> is a raw pointer into the module arena, \<open>*StoreMgr.getModule(ModInstAddr)\<close>.
  Reading through it is defined when the address is in the arena.
\<close>

definition derefModInst :: "u32 \<Rightarrow> (ModuleInstance, 'z Machine_scheme) Step" where
  "derefModInst ModInstAddr s =
     (case getModule (StoreMgr s) ModInstAddr of
        Inl _ \<Rightarrow> (Inl Undefined, s)
      | Inr ModInst \<Rightarrow> (Inr ModInst, s))"

text \<open>Writing through the pointer: the instance at the address is replaced in the arena.\<close>

definition updateModInst :: "u32 \<Rightarrow> (ModuleInstance \<Rightarrow> ModuleInstance) \<Rightarrow> 'z Machine_scheme \<Rightarrow> 'z Machine_scheme" where
  "updateModInst ModInstAddr f s =
     s\<lparr>StoreMgr := (StoreMgr s)\<lparr>ModInsts :=
          (ModInsts (StoreMgr s))[unat ModInstAddr := f (ModInsts (StoreMgr s) ! unat ModInstAddr)]\<rparr>\<rparr>"

text \<open>
  The functions \<open>instantiate\<close> calls that are not among the sources: the overloads of
  \<open>Interpreter::instantiate\<close> for the sections, the two overloads of
  \<open>resolveExpression\<close>, \<open>runFunction\<close>, and the constructor of a compiled module behind
  the pointer \<open>getCtor\<close> returns. They are parameters. Each takes the address of the module
  instance where the source passes \<open>*ModInst\<close>, and the state.

  \<open>StoreMgr.findModule\<close> is a parameter as well. The source calls it right after
  \<open>StoreMgr.reset()\<close>, so it expects names that are found in a Store that has just been
  reset; the specification says that the reset purges all arenas and does not say which names
  those are. The lookup is a function of the state and the name that only reads; it may
  consult the extension of the state, which the reset of the Store does not touch.
\<close>

record ('c, 'g, 'e, 'd, 'z) Env =
  findModule :: "'z Machine_scheme \<Rightarrow> string \<Rightarrow> u32 option"
  instantiate_ImportSec :: "u32 \<Rightarrow> ImportDesc list \<Rightarrow> (unit, 'z Machine_scheme) Step"
  instantiate_FunctionSec :: "u32 \<Rightarrow> u32 list \<Rightarrow> 'c list \<Rightarrow> (unit, 'z Machine_scheme) Step"
  instantiate_GlobalSec :: "u32 \<Rightarrow> 'g list \<Rightarrow> (unit, 'z Machine_scheme) Step"
  instantiate_TableSec :: "u32 \<Rightarrow> TableType list \<Rightarrow> (unit, 'z Machine_scheme) Step"
  instantiate_MemorySec :: "u32 \<Rightarrow> MemoryType list \<Rightarrow> (unit, 'z Machine_scheme) Step"
  resolveExpression_ElementSec :: "u32 \<Rightarrow> 'e list \<Rightarrow> (u32 list, 'z Machine_scheme) Step"
  resolveExpression_DataSec :: "u32 \<Rightarrow> 'd list \<Rightarrow> (u32 list, 'z Machine_scheme) Step"
  instantiate_ElementSec :: "u32 \<Rightarrow> 'e list \<Rightarrow> u32 list \<Rightarrow> (unit, 'z Machine_scheme) Step"
  instantiate_DataSec :: "u32 \<Rightarrow> 'd list \<Rightarrow> u32 list \<Rightarrow> (unit, 'z Machine_scheme) Step"
  instantiate_ExportSec :: "u32 \<Rightarrow> ExportDesc list \<Rightarrow> (unit, 'z Machine_scheme) Step"
  CtorFunc :: "nat \<Rightarrow> 'z Machine_scheme \<Rightarrow> 'z Machine_scheme"
  runFunction :: "FunctionInstance \<Rightarrow> ValVariant list \<Rightarrow> (unit, 'z Machine_scheme) Step"

text \<open>
  \<open>Expect<void> Interpreter::instantiate(Runtime::StoreManager &StoreMgr,
  const AST::Module &Mod, const std::string &Name)\<close>, statement by statement.
\<close>

definition instantiate ::
  "('c, 'g, 'e, 'd, 'z) Env \<Rightarrow> ('c, 'g, 'e, 'd) Module \<Rightarrow> string \<Rightarrow> (unit, 'z Machine_scheme) Step" where
  "instantiate E Mod Name s0 =
    \<comment> \<open>Reset store manager, stack manager, and instruction provider.\<close>
    (let s1 = s0\<lparr>StoreMgr := StoreManager_reset (StoreMgr s0)\<rparr>;
         s2 = s1\<lparr>StackMgr := StackManager_reset (StackMgr s1)\<rparr>;
         s3 = s2\<lparr>InstrPdr := InstrProvider_reset (InstrPdr s2)\<rparr>
     in
     \<comment> \<open>Check is module name duplicated.\<close>
     case findModule E s3 Name of
       Some Res \<Rightarrow> (Inl (Unexpect ModuleNameConflict), s3)
     | None \<Rightarrow>
        (let NewModInst = ModuleInstance_new Name;
             \<comment> \<open>Insert the module instance to store manager and retrieve instance.\<close>
             (ModInstAddr, Store') =
                (if InsMode s3 = Instantiate then pushModule (StoreMgr s3) NewModInst
                 else importModule (StoreMgr s3) NewModInst);
             s4 = s3\<lparr>StoreMgr := Store'\<rparr>
         in
          (bindE (derefModInst ModInstAddr) (\<lambda>_.
           \<comment> \<open>Instantiate Function Types in Module Instance. (TypeSec)\<close>
           thenE (whenSec (TypeSec Mod) (\<lambda>FuncTypes. doE (\<lambda>s.
                    foldl (\<lambda>s' FuncType.
                             updateModInst ModInstAddr
                               (addFuncType (getParamTypes FuncType) (getReturnTypes FuncType)) s')
                          s FuncTypes)))
           \<comment> \<open>Instantiate ImportSection and do import matching. (ImportSec)\<close>
          (thenE (whenSec (ImportSec Mod) (instantiate_ImportSec E ModInstAddr))
           \<comment> \<open>Instantiate Functions in module. (FunctionSec, CodeSec)\<close>
          (thenE (case FunctionSec Mod of
                    None \<Rightarrow> returnE ()
                  | Some FuncSec \<Rightarrow>
                      (case CodeSec Mod of
                         None \<Rightarrow> returnE ()
                       | Some CodeSec' \<Rightarrow> instantiate_FunctionSec E ModInstAddr FuncSec CodeSec'))
           \<comment> \<open>Instantiate GlobalSection (GlobalSec)\<close>
          (thenE (whenSec (GlobalSec Mod) (instantiate_GlobalSec E ModInstAddr))
           \<comment> \<open>Instantiate TableSection (TableSec)\<close>
          (thenE (whenSec (TableSec Mod) (instantiate_TableSec E ModInstAddr))
           \<comment> \<open>Instantiate MemorySection (MemorySec)\<close>
          (thenE (whenSec (MemorySec Mod) (instantiate_MemorySec E ModInstAddr))
           \<comment> \<open>Make a new frame {ModInst, locals:none} and push\<close>
          (bindE (derefModInst ModInstAddr) (\<lambda>ModInst.
           thenE (doE (\<lambda>s. s\<lparr>StackMgr := pushFrame (StackMgr s) (Addr ModInst) 0 0\<rparr>))
           \<comment> \<open>Resolve offset list of element section.\<close>
          (bindE (case ElementSec Mod of
                    None \<Rightarrow> returnE []
                  | Some ElemSec \<Rightarrow> resolveExpression_ElementSec E ModInstAddr ElemSec) (\<lambda>ElemOffsets.
           \<comment> \<open>Resolve offset list of data section.\<close>
           bindE (case DataSec Mod of
                    None \<Rightarrow> returnE []
                  | Some DataSec' \<Rightarrow> resolveExpression_DataSec E ModInstAddr DataSec') (\<lambda>DataOffsets.
           \<comment> \<open>Pop Frame.\<close>
           thenE (doE (\<lambda>s. s\<lparr>StackMgr := popFrame (StackMgr s)\<rparr>))
           \<comment> \<open>Instantiate initialization of table instances (ElemSec)\<close>
          (thenE (whenSec (ElementSec Mod) (\<lambda>ElemSec. instantiate_ElementSec E ModInstAddr ElemSec ElemOffsets))
           \<comment> \<open>Instantiate initialization of memory instances (DataSec)\<close>
          (thenE (whenSec (DataSec Mod) (\<lambda>DataSec'. instantiate_DataSec E ModInstAddr DataSec' DataOffsets))
           \<comment> \<open>Instantiate ExportSection (ExportSec)\<close>
          (thenE (whenSec (ExportSec Mod) (instantiate_ExportSec E ModInstAddr))
           \<comment> \<open>Call Ctor for compiled module\<close>
          (thenE (whenSec (Ctor Mod) (\<lambda>Ctor'. doE (CtorFunc E Ctor')))
           \<comment> \<open>Instantiate StartSection (StartSec)\<close>
          (case StartSec Mod of
             None \<Rightarrow> returnE ()
           | Some StartIdx' \<Rightarrow>
               bindE (derefModInst ModInstAddr) (\<lambda>_.
               thenE (doE (updateModInst ModInstAddr (setStartIdx StartIdx')))
              (bindE (derefModInst ModInstAddr) (\<lambda>ModInst'.
               case getStartAddr ModInst' of
                 None \<Rightarrow> (\<lambda>s. (Inl Undefined, s))
               | Some Addr' \<Rightarrow>
                   (\<lambda>s. case getFunction (StoreMgr s) Addr' of
                          Inl _ \<Rightarrow> (Inl Undefined, s)
                        | Inr FuncInst \<Rightarrow> runFunction E FuncInst [] s)))))))))))))))))))))
          s4))"

text \<open>
  The address \<open>ModInstAddr\<close> that \<open>instantiate\<close> obtains for the new module instance when it
  is called on the state \<open>s\<close>: what \<open>pushModule\<close> or \<open>importModule\<close> returns on the Store
  after the reset.
\<close>

definition newModInstAddr :: "'z Machine_scheme \<Rightarrow> string \<Rightarrow> u32" where
  "newModInstAddr s Name =
     fst (if InsMode s = Instantiate
          then pushModule (StoreManager_reset (StoreMgr s)) (ModuleInstance_new Name)
          else importModule (StoreManager_reset (StoreMgr s)) (ModuleInstance_new Name))"

section \<open>The calls instantiate makes\<close>

text \<open>
  To speak about the order of the calls, the functions of the environment that act on the
  state are wrapped so that each call leaves a record in the extension of the state: which
  function was called, the failure it returned if any, and the state it left. \<open>instantiate\<close>
  itself is not changed, and it cannot see the record; the name lookup reads the state
  without the record.
\<close>

datatype Call =
    Call_ImportSec | Call_FunctionSec | Call_GlobalSec | Call_TableSec | Call_MemorySec
  | Call_resolveElementSec | Call_resolveDataSec | Call_ElementSec | Call_DataSec
  | Call_ExportSec | Call_Ctor | Call_runFunction

type_synonym Event = "Call \<times> Failure option \<times> Machine"

definition failureOf :: "Failure + 'a \<Rightarrow> Failure option" where
  "failureOf r = (case r of Inl f \<Rightarrow> Some f | Inr _ \<Rightarrow> None)"

text \<open>
  \<open>logged c f\<close> runs \<open>f\<close> on the state without the record and appends the event to the record.
\<close>

definition logged :: "Call \<Rightarrow> ('a, Machine) Step \<Rightarrow> ('a, (Event list) Machine_scheme) Step" where
  "logged c f s =
     (case f (Machine.truncate s) of
        (r, t) \<Rightarrow> (r, Machine.extend t (Machine.more s @ [(c, failureOf r, t)])))"

text \<open>
  The environment \<open>E\<close> with every function wrapped.
\<close>

definition traced :: "('c, 'g, 'e, 'd, unit) Env \<Rightarrow> ('c, 'g, 'e, 'd, Event list) Env" where
  "traced E =
     \<lparr>findModule = (\<lambda>s. findModule E (Machine.truncate s)),
      instantiate_ImportSec = (\<lambda>A Sec. logged Call_ImportSec (instantiate_ImportSec E A Sec)),
      instantiate_FunctionSec = (\<lambda>A FSec CSec. logged Call_FunctionSec (instantiate_FunctionSec E A FSec CSec)),
      instantiate_GlobalSec = (\<lambda>A Sec. logged Call_GlobalSec (instantiate_GlobalSec E A Sec)),
      instantiate_TableSec = (\<lambda>A Sec. logged Call_TableSec (instantiate_TableSec E A Sec)),
      instantiate_MemorySec = (\<lambda>A Sec. logged Call_MemorySec (instantiate_MemorySec E A Sec)),
      resolveExpression_ElementSec = (\<lambda>A Sec. logged Call_resolveElementSec (resolveExpression_ElementSec E A Sec)),
      resolveExpression_DataSec = (\<lambda>A Sec. logged Call_resolveDataSec (resolveExpression_DataSec E A Sec)),
      instantiate_ElementSec = (\<lambda>A Sec Offs. logged Call_ElementSec (instantiate_ElementSec E A Sec Offs)),
      instantiate_DataSec = (\<lambda>A Sec Offs. logged Call_DataSec (instantiate_DataSec E A Sec Offs)),
      instantiate_ExportSec = (\<lambda>A Sec. logged Call_ExportSec (instantiate_ExportSec E A Sec)),
      CtorFunc = (\<lambda>C s. snd (logged Call_Ctor (doE (CtorFunc E C)) s)),
      runFunction = (\<lambda>F Args. logged Call_runFunction (runFunction E F Args))\<rparr>"

text \<open>
  The calls \<open>instantiate\<close> makes on the state \<open>s\<close>, in the order it makes them.
\<close>

definition callLog :: "('c, 'g, 'e, 'd, unit) Env \<Rightarrow> ('c, 'g, 'e, 'd) Module \<Rightarrow> string \<Rightarrow> Machine \<Rightarrow> Event list" where
  "callLog E Mod Name s = Machine.more (snd (instantiate (traced E) Mod Name (Machine.extend s [])))"

text \<open>
  An event of a call that returned without failure.
\<close>

definition succeeded :: "Event \<Rightarrow> bool" where
  "succeeded ev = (fst (snd ev) = None)"

subsection \<open>The order of the pipeline\<close>

text \<open>
  The position of each call in the pipeline of section 4.5 of the specification: imports (step
  5), local functions (6), globals (7), tables (8), memories (9), the offsets of the element and
  of the data segments (10), the element segments (11), the data segments (12), exports (13),
  the constructor of a compiled module (14), the start function (15).
\<close>

fun rank :: "Call \<Rightarrow> nat" where
  "rank Call_ImportSec = 0"
| "rank Call_FunctionSec = 1"
| "rank Call_GlobalSec = 2"
| "rank Call_TableSec = 3"
| "rank Call_MemorySec = 4"
| "rank Call_resolveElementSec = 5"
| "rank Call_resolveDataSec = 6"
| "rank Call_ElementSec = 7"
| "rank Call_DataSec = 8"
| "rank Call_ExportSec = 9"
| "rank Call_Ctor = 10"
| "rank Call_runFunction = 11"

text \<open>
  The calls a module asks for: one for each section that is present, in the order of the
  pipeline. The local functions are instantiated when both the Function and the Code section
  are present; the Element and the Data section each ask for two calls, the offsets and the
  initialisation.
\<close>

definition present :: "'x option \<Rightarrow> Call \<Rightarrow> Call list" where
  "present Sec c = (case Sec of None \<Rightarrow> [] | Some _ \<Rightarrow> [c])"

definition callsOf :: "('c, 'g, 'e, 'd) Module \<Rightarrow> Call list" where
  "callsOf Mod =
     present (ImportSec Mod) Call_ImportSec
     @ (case FunctionSec Mod of None \<Rightarrow> [] | Some _ \<Rightarrow> present (CodeSec Mod) Call_FunctionSec)
     @ present (GlobalSec Mod) Call_GlobalSec
     @ present (TableSec Mod) Call_TableSec
     @ present (MemorySec Mod) Call_MemorySec
     @ present (ElementSec Mod) Call_resolveElementSec
     @ present (DataSec Mod) Call_resolveDataSec
     @ present (ElementSec Mod) Call_ElementSec
     @ present (DataSec Mod) Call_DataSec
     @ present (ExportSec Mod) Call_ExportSec
     @ present (Ctor Mod) Call_Ctor
     @ present (StartSec Mod) Call_runFunction"

section \<open>Assertions for the proofs\<close>

text \<open>
  \<open>hoareE P m Q R\<close>: from a state that satisfies \<open>P\<close>, the step \<open>m\<close> either returns a value
  and a state that satisfy \<open>Q\<close>, or fails with a failure and a state that satisfy \<open>R\<close>.
\<close>

definition hoareE ::
  "('s \<Rightarrow> bool) \<Rightarrow> ('a, 's) Step \<Rightarrow> ('a \<Rightarrow> 's \<Rightarrow> bool) \<Rightarrow> (Failure \<Rightarrow> 's \<Rightarrow> bool) \<Rightarrow> bool" where
  "hoareE P m Q R = (\<forall>s. P s \<longrightarrow> (case m s of (Inl f, s') \<Rightarrow> R f s' | (Inr x, s') \<Rightarrow> Q x s'))"

text \<open>
  \<open>Logged cs\<close>: the calls made so far are \<open>cs\<close> and all of them succeeded.
  \<open>Stopped full f\<close>: the run has stopped with the failure \<open>f\<close>; the calls made are a prefix of
  \<open>full\<close>, all but the last succeeded, and unless the failure is undefined behaviour of
  \<open>instantiate\<close> itself, the last call is the one that failed with \<open>f\<close> and the state is the one
  it left.
\<close>

definition Logged :: "Call list \<Rightarrow> (Event list) Machine_scheme \<Rightarrow> bool" where
  "Logged cs s = (map fst (Machine.more s) = cs \<and> list_all succeeded (Machine.more s))"

definition Stopped :: "Call list \<Rightarrow> Failure \<Rightarrow> (Event list) Machine_scheme \<Rightarrow> bool" where
  "Stopped full f s =
     (prefix (map fst (Machine.more s)) full \<and> list_all succeeded (butlast (Machine.more s))
      \<and> (f = Undefined \<and> list_all succeeded (Machine.more s)
           \<or> (\<exists>c. Machine.more s \<noteq> [] \<and> last (Machine.more s) = (c, Some f, Machine.truncate s))))"

text \<open>
  \<open>simE m' m\<close>: the step \<open>m'\<close> on a state with a record does what \<open>m\<close> does on the state
  without it.
\<close>

definition simE :: "('a, (Event list) Machine_scheme) Step \<Rightarrow> ('a, Machine) Step \<Rightarrow> bool" where
  "simE m' m = (\<forall>s. apsnd Machine.truncate (m' s) = m (Machine.truncate s))"

text \<open>
  \<open>continuesWith m' m k\<close>: the step \<open>m'\<close> is \<open>m\<close> followed, when \<open>m\<close> succeeds, by \<open>k\<close>.
\<close>

definition continuesWith :: "('a, 's) Step \<Rightarrow> (unit, 's) Step \<Rightarrow> ('a, 's) Step \<Rightarrow> bool" where
  "continuesWith m' m k = (m' = thenE m k)"

section \<open>Concrete modules, environments and states\<close>

text \<open>
  An environment in which names are looked up in the name map of the Store and every call
  succeeds and changes nothing, the module without any section, the Store without any entry,
  and an interpreter in the mode \<open>Instantiate\<close> on it.
\<close>

definition env0 :: "(nat, nat, nat, nat, unit) Env" where
  "env0 =
     \<lparr>findModule = (\<lambda>s. find_module (StoreMgr s)),
      instantiate_ImportSec = (\<lambda>A Sec. returnE ()),
      instantiate_FunctionSec = (\<lambda>A FSec CSec. returnE ()),
      instantiate_GlobalSec = (\<lambda>A Sec. returnE ()),
      instantiate_TableSec = (\<lambda>A Sec. returnE ()),
      instantiate_MemorySec = (\<lambda>A Sec. returnE ()),
      resolveExpression_ElementSec = (\<lambda>A Sec. returnE []),
      resolveExpression_DataSec = (\<lambda>A Sec. returnE []),
      instantiate_ElementSec = (\<lambda>A Sec Offs. returnE ()),
      instantiate_DataSec = (\<lambda>A Sec Offs. returnE ()),
      instantiate_ExportSec = (\<lambda>A Sec. returnE ()),
      CtorFunc = (\<lambda>C s. s),
      runFunction = (\<lambda>F Args. returnE ())\<rparr>"

definition emptyModule :: "(nat, nat, nat, nat) Module" where
  "emptyModule = \<lparr>TypeSec = None, ImportSec = None, FunctionSec = None, TableSec = None,
     MemorySec = None, GlobalSec = None, ExportSec = None, StartSec = None, ElementSec = None,
     CodeSec = None, DataSec = None, Ctor = None\<rparr>"

definition emptyStore :: StoreManager where
  "emptyStore = \<lparr>FuncInsts = [], TabInsts = [], MemInsts = [], GlobInsts = [], ModInsts = [], ModMap = []\<rparr>"

definition machine0 :: Machine where
  "machine0 = \<lparr>StoreMgr = emptyStore, StackMgr = [], InstrPdr = [], InsMode = Instantiate\<rparr>"

text \<open>
  A state in which a module named \<open>env\<close> has been registered with \<open>importModule\<close>.
\<close>

definition machineEnv :: Machine where
  "machineEnv = machine0\<lparr>StoreMgr := snd (importModule emptyStore (ModuleInstance_new ''env''))\<rparr>"

text \<open>
  An environment whose name lookup consults the names the host keeps in the extension of the
  state, outside the arenas that the reset purges, and the state in which the module \<open>env\<close>
  is registered and the host keeps its name.
\<close>

definition envHost :: "(nat, nat, nat, nat, (string \<times> u32) list) Env" where
  "envHost =
     \<lparr>findModule = (\<lambda>s. map_of (Machine.more s)),
      instantiate_ImportSec = (\<lambda>A Sec. returnE ()),
      instantiate_FunctionSec = (\<lambda>A FSec CSec. returnE ()),
      instantiate_GlobalSec = (\<lambda>A Sec. returnE ()),
      instantiate_TableSec = (\<lambda>A Sec. returnE ()),
      instantiate_MemorySec = (\<lambda>A Sec. returnE ()),
      resolveExpression_ElementSec = (\<lambda>A Sec. returnE []),
      resolveExpression_DataSec = (\<lambda>A Sec. returnE []),
      instantiate_ElementSec = (\<lambda>A Sec Offs. returnE ()),
      instantiate_DataSec = (\<lambda>A Sec Offs. returnE ()),
      instantiate_ExportSec = (\<lambda>A Sec. returnE ()),
      CtorFunc = (\<lambda>C s. s),
      runFunction = (\<lambda>F Args. returnE ())\<rparr>"

definition machineHost :: "((string \<times> u32) list) Machine_scheme" where
  "machineHost = Machine.extend machineEnv [(''env'', 0)]"

text \<open>
  An environment that instantiates the local functions as step 6 of section 4.5 says: for
  each pair of the Function and Code sections it allocates a function in the Store and
  appends the address to the function address space of the instance. The other environments
  differ from it, or from \<open>env0\<close>, in one function: the global step fails with
  \<open>InvalidInitializer\<close>; the offsets of the element section fail with \<open>InvalidInitializer\<close>;
  the start function traps.
\<close>

definition envAlloc :: "(nat, nat, nat, nat, unit) Env" where
  "envAlloc = env0
     \<lparr>instantiate_FunctionSec := (\<lambda>A FuncSec CodeSec' s.
        (Inr (), foldl (\<lambda>s' (TypeIdx, Body).
                    case allocateFunction (StoreMgr s')
                           \<lparr>FuncModAddr = A, FuncTypeIdx = TypeIdx, FuncBody = Body\<rparr> of
                      (FuncAddr, Store') \<Rightarrow>
                        updateModInst A (\<lambda>MI. MI\<lparr>FuncAddrs := FuncAddrs MI @ [FuncAddr]\<rparr>)
                          (s'\<lparr>StoreMgr := Store'\<rparr>))
                  s (zip FuncSec CodeSec')))\<rparr>"

definition envGlobalFails :: "(nat, nat, nat, nat, unit) Env" where
  "envGlobalFails = envAlloc
     \<lparr>instantiate_GlobalSec := (\<lambda>A Sec s. (Inl (Unexpect InvalidInitializer), s))\<rparr>"

definition envOffsetFails :: "(nat, nat, nat, nat, unit) Env" where
  "envOffsetFails = env0
     \<lparr>resolveExpression_ElementSec := (\<lambda>A Sec s. (Inl (Unexpect InvalidInitializer), s))\<rparr>"

definition envStartTraps :: "(nat, nat, nat, nat, unit) Env" where
  "envStartTraps = envAlloc
     \<lparr>runFunction := (\<lambda>F Args s. (Inl (Unexpect StartTrap), s))\<rparr>"

text \<open>
  An environment that publishes the exports as step 13 of section 4.5 says, recording each
  entry in the export map of the instance, and whose constructor of a compiled module leaves
  its handle in the scratch of the instruction provider, so that both calls can be seen in
  the state.
\<close>

definition envPublish :: "(nat, nat, nat, nat, unit) Env" where
  "envPublish = envAlloc
     \<lparr>instantiate_ExportSec := (\<lambda>A Sec. doE (updateModInst A (\<lambda>MI.
          MI\<lparr>ExportMap := ExportMap MI @ map (\<lambda>D. (ExpExtName D, ExpExtType D, ExtIdx D)) Sec\<rparr>))),
      CtorFunc := (\<lambda>C s. s\<lparr>InstrPdr := InstrPdr s @ [C]\<rparr>)\<rparr>"

text \<open>
  Modules: one local function and one global; one element segment; one local function that
  is the start function; a Function section without a Code section; a module with
  imports, globals, memories, element and data segments, exports and a constructor; and a
  module with one local function that is exported under the name \<open>answer\<close>, a constructor
  and no Start section.
\<close>

definition modFuncGlobal :: "(nat, nat, nat, nat) Module" where
  "modFuncGlobal = emptyModule
     \<lparr>TypeSec := Some [\<lparr>ParamTypes = [], ReturnTypes = [I32]\<rparr>],
      FunctionSec := Some [0], CodeSec := Some [7], GlobalSec := Some [1]\<rparr>"

definition modElement :: "(nat, nat, nat, nat) Module" where
  "modElement = emptyModule\<lparr>ElementSec := Some [1]\<rparr>"

definition modStart :: "(nat, nat, nat, nat) Module" where
  "modStart = emptyModule
     \<lparr>TypeSec := Some [\<lparr>ParamTypes = [], ReturnTypes = []\<rparr>],
      FunctionSec := Some [0], CodeSec := Some [7], StartSec := Some 0\<rparr>"

definition modFuncOnly :: "(nat, nat, nat, nat) Module" where
  "modFuncOnly = emptyModule\<lparr>FunctionSec := Some [0]\<rparr>"

definition modPipeline :: "(nat, nat, nat, nat) Module" where
  "modPipeline = emptyModule
     \<lparr>ImportSec := Some [], GlobalSec := Some [1], MemorySec := Some [],
      ElementSec := Some [1], DataSec := Some [2], ExportSec := Some [], Ctor := Some 0\<rparr>"

definition modExported :: "(nat, nat, nat, nat) Module" where
  "modExported = emptyModule
     \<lparr>TypeSec := Some [\<lparr>ParamTypes = [], ReturnTypes = [I32]\<rparr>],
      FunctionSec := Some [0], CodeSec := Some [42],
      ExportSec := Some [\<lparr>ExpExtType = Function, ExpExtName = ''answer'', ExtIdx = 0, Symbol = None\<rparr>],
      Ctor := Some 9\<rparr>"

section \<open>Properties of Limit\<close>

text \<open>
  C7, as the code has it. The two-argument constructor stores both bounds as they are given
  and compares nothing, so the limit it builds has \<open>hasMax\<close>, \<open>getMax\<close> returns the second
  argument, and \<open>getMin \<le> getMax\<close> holds for it exactly when the arguments satisfy it.
\<close>

theorem Limit2_min_le_max_iff:
  "hasMax (Limit2 a b) \<and> getMax (Limit2 a b) = Inr b \<and> (getMin (Limit2 a b) \<le> b) = (a \<le> b)"
  by (simp add: hasMax_def getMin_def getMax_def Limit2_def)

text \<open>
  C7, as the specification states it, fails: \<open>Limit(5, 3)\<close> has a maximum, \<open>getMax\<close>
  returns 3, and the minimum is above it.
\<close>

theorem Limit_invariant_counterexample:
  "hasMax (Limit2 5 3) \<and> getMax (Limit2 5 3) = Inr 3 \<and> \<not> getMin (Limit2 5 3) \<le> 3"
  by (simp add: hasMax_def getMin_def getMax_def Limit2_def)

text \<open>
  C10, as the code has it. Construction and observation round-trip: \<open>Limit(a)\<close> has no
  maximum and minimum \<open>a\<close>; \<open>Limit(a, b)\<close> has a maximum, minimum \<open>a\<close> and maximum \<open>b\<close>.
  \<open>getMax\<close> does not look at \<open>Type\<close>, so what it does is the same whether \<open>hasMax\<close> holds
  or not: it has a result exactly when the member \<open>Max\<close> was initialised, and on \<open>Limit(a)\<close>,
  which leaves the member uninitialised, the read is undefined behaviour.
\<close>

theorem Limit_roundtrip:
  "\<not> hasMax (Limit1 a) \<and> getMin (Limit1 a) = a
   \<and> hasMax (Limit2 a b) \<and> getMin (Limit2 a b) = a \<and> getMax (Limit2 a b) = Inr b
   \<and> getMax (Limit1 a) = Inl Undefined
   \<and> getMax (L\<lparr>TypeL := t\<rparr>) = getMax L
   \<and> (\<exists>v. getMax L = Inr v) = (MaxL L \<noteq> None)"
  by (cases "MaxL L") (simp_all add: hasMax_def getMin_def getMax_def Limit1_def Limit2_def)

text \<open>
  C10, as it is stated, fails: \<open>Limit(7)\<close> has no maximum, and \<open>getMax\<close> on it has no
  result; the call reads the member that the constructor never initialised.
\<close>

theorem getMax_uninitialised_counterexample:
  "\<not> hasMax (Limit1 7) \<and> getMin (Limit1 7) = 7 \<and> getMax (Limit1 7) = Inl Undefined
   \<and> (\<nexists>v. getMax (Limit1 7) = Inr v)"
  by (simp add: hasMax_def getMin_def getMax_def Limit1_def)

section \<open>Properties of ImportDesc\<close>

text \<open>
  C8. Each instance of \<open>getExternalContent\<close> returns the pointer held exactly when the
  variant holds the alternative of that instance, and the error
  \<open>IncompatibleImportType\<close>, and no other, in every other case.
\<close>

theorem getExternalContent_exact:
  "(getExternalContent_uint32 D = Inr p0) = (ExtContent D = Alt_uint32 p0)
   \<and> (getExternalContent_uint32 D = Inl e0) = (index (ExtContent D) \<noteq> 0 \<and> e0 = IncompatibleImportType)
   \<and> (getExternalContent_TableType D = Inr p1) = (ExtContent D = Alt_TableType p1)
   \<and> (getExternalContent_TableType D = Inl e1) = (index (ExtContent D) \<noteq> 1 \<and> e1 = IncompatibleImportType)
   \<and> (getExternalContent_MemoryType D = Inr p2) = (ExtContent D = Alt_MemoryType p2)
   \<and> (getExternalContent_MemoryType D = Inl e2) = (index (ExtContent D) \<noteq> 2 \<and> e2 = IncompatibleImportType)
   \<and> (getExternalContent_GlobalType D = Inr p3) = (ExtContent D = Alt_GlobalType p3)
   \<and> (getExternalContent_GlobalType D = Inl e3) = (index (ExtContent D) \<noteq> 3 \<and> e3 = IncompatibleImportType)"
  by (cases "ExtContent D")
     (auto simp: getExternalContent_uint32_def getExternalContent_TableType_def
        getExternalContent_MemoryType_def getExternalContent_GlobalType_def)

section \<open>Rules for the assertions\<close>

lemma hoareE_D:
  "hoareE P m Q R \<Longrightarrow> P s \<Longrightarrow> (case m s of (Inl f, s') \<Rightarrow> R f s' | (Inr x, s') \<Rightarrow> Q x s')"
  by (simp add: hoareE_def)

lemma hoareE_bindE:
  "hoareE P m Q' R \<Longrightarrow> (\<And>x. hoareE (Q' x) (k x) Q R) \<Longrightarrow> hoareE P (bindE m k) Q R"
  unfolding hoareE_def bindE_def
  by (fastforce split: prod.splits sum.splits)

lemma hoareE_thenE:
  "hoareE P m (\<lambda>_. P') R \<Longrightarrow> hoareE P' k Q R \<Longrightarrow> hoareE P (thenE m k) Q R"
  unfolding thenE_def by (rule hoareE_bindE)

lemma hoareE_returnE:
  "(\<And>s. P s \<Longrightarrow> Q x s) \<Longrightarrow> hoareE P (returnE x) Q R"
  by (simp add: hoareE_def returnE_def)

lemma hoareE_doE:
  "(\<And>s. P s \<Longrightarrow> Q () (f s)) \<Longrightarrow> hoareE P (doE f) Q R"
  by (simp add: hoareE_def doE_def)

lemma hoareE_whenSec:
  "(\<And>s. Sec = None \<Longrightarrow> P s \<Longrightarrow> Q () s) \<Longrightarrow> (\<And>x. Sec = Some x \<Longrightarrow> hoareE P (f x) Q R)
   \<Longrightarrow> hoareE P (whenSec Sec f) Q R"
  by (cases Sec) (simp_all add: whenSec_def hoareE_returnE)

lemma hoareE_derefModInst:
  "(\<And>s MI. P s \<Longrightarrow> Q MI s) \<Longrightarrow> (\<And>s. P s \<Longrightarrow> R Undefined s)
   \<Longrightarrow> hoareE P (derefModInst A) Q R"
  by (simp add: hoareE_def derefModInst_def split: sum.splits)

subsection \<open>The record of calls\<close>

lemma more_extend [simp]: "Machine.more (Machine.extend t l) = l"
  by (simp add: Machine.defs)

lemma truncate_extend [simp]: "Machine.truncate (Machine.extend t l) = t"
  by (simp add: Machine.defs)

lemma Logged_logged:
  "prefix (cs @ [c]) full \<Longrightarrow>
   hoareE (Logged cs) (logged c f) (\<lambda>_. Logged (cs @ [c])) (Stopped full)"
  by (auto simp: hoareE_def logged_def Logged_def Stopped_def succeeded_def failureOf_def
      split: prod.splits sum.splits)

lemma Logged_whenSec:
  "(\<And>x. Sec = Some x \<Longrightarrow> prefix (cs @ [c]) full) \<Longrightarrow>
   hoareE (Logged cs) (whenSec Sec (\<lambda>x. logged c (f x))) (\<lambda>_. Logged (cs @ present Sec c)) (Stopped full)"
  by (rule hoareE_whenSec) (simp_all add: present_def Logged_logged)

lemma traced_simps [simp]:
  "findModule (traced E) = (\<lambda>s. findModule E (Machine.truncate s))"
  "instantiate_ImportSec (traced E) = (\<lambda>A Sec. logged Call_ImportSec (instantiate_ImportSec E A Sec))"
  "instantiate_FunctionSec (traced E) = (\<lambda>A FSec CSec. logged Call_FunctionSec (instantiate_FunctionSec E A FSec CSec))"
  "instantiate_GlobalSec (traced E) = (\<lambda>A Sec. logged Call_GlobalSec (instantiate_GlobalSec E A Sec))"
  "instantiate_TableSec (traced E) = (\<lambda>A Sec. logged Call_TableSec (instantiate_TableSec E A Sec))"
  "instantiate_MemorySec (traced E) = (\<lambda>A Sec. logged Call_MemorySec (instantiate_MemorySec E A Sec))"
  "resolveExpression_ElementSec (traced E) = (\<lambda>A Sec. logged Call_resolveElementSec (resolveExpression_ElementSec E A Sec))"
  "resolveExpression_DataSec (traced E) = (\<lambda>A Sec. logged Call_resolveDataSec (resolveExpression_DataSec E A Sec))"
  "instantiate_ElementSec (traced E) = (\<lambda>A Sec Offs. logged Call_ElementSec (instantiate_ElementSec E A Sec Offs))"
  "instantiate_DataSec (traced E) = (\<lambda>A Sec Offs. logged Call_DataSec (instantiate_DataSec E A Sec Offs))"
  "instantiate_ExportSec (traced E) = (\<lambda>A Sec. logged Call_ExportSec (instantiate_ExportSec E A Sec))"
  "CtorFunc (traced E) = (\<lambda>C s. snd (logged Call_Ctor (doE (CtorFunc E C)) s))"
  "runFunction (traced E) = (\<lambda>F Args. logged Call_runFunction (runFunction E F Args))"
  by (simp_all add: traced_def)

lemma StoreManager_reset_idem: "StoreManager_reset (StoreManager_reset S) = StoreManager_reset S"
  by (simp add: StoreManager_reset_def)

lemma enter_if:
  "(if M = Instantiate then pushModule S MI else importModule S MI) = enterModule M S MI"
  by (cases M) (simp_all add: pushModule_def importModule_def)

lemma Logged_Stopped: "prefix cs full \<Longrightarrow> Logged cs s \<Longrightarrow> Stopped full Undefined s"
  by (cases "Machine.more s" rule: rev_cases) (auto simp: Logged_def Stopped_def)

lemma Logged_derefModInst:
  "prefix cs full \<Longrightarrow> hoareE (Logged cs) (derefModInst A) (\<lambda>_. Logged cs) (Stopped full)"
  by (rule hoareE_derefModInst) (simp_all add: Logged_Stopped)

lemma Logged_doE:
  "(\<And>s. Machine.more (f s) = Machine.more s) \<Longrightarrow> hoareE (Logged cs) (doE f) (\<lambda>_. Logged cs) R"
  by (rule hoareE_doE) (simp add: Logged_def)

lemma more_updateModInst [simp]: "Machine.more (updateModInst A f s) = Machine.more s"
  by (simp add: updateModInst_def)

lemma more_foldl_updateModInst [simp]:
  "Machine.more (foldl (\<lambda>s' x. updateModInst A (g x) s') s xs) = Machine.more s"
  by (induction xs arbitrary: s) simp_all

lemma Logged_resolve:
  "(\<And>x. Sec = Some x \<Longrightarrow> prefix (cs @ [c]) full) \<Longrightarrow>
   hoareE (Logged cs) (case Sec of None \<Rightarrow> returnE [] | Some x \<Rightarrow> logged c (f x))
     (\<lambda>_. Logged (cs @ present Sec c)) (Stopped full)"
  by (cases Sec) (simp_all add: present_def Logged_logged hoareE_returnE)

lemma Logged_FunctionSec:
  "(\<And>x y. FSec = Some x \<Longrightarrow> CSec = Some y \<Longrightarrow> prefix (cs @ [c]) full) \<Longrightarrow>
   hoareE (Logged cs)
     (case FSec of None \<Rightarrow> returnE ()
      | Some x \<Rightarrow> (case CSec of None \<Rightarrow> returnE () | Some y \<Rightarrow> logged c (f x y)))
     (\<lambda>_. Logged (cs @ (case FSec of None \<Rightarrow> [] | Some _ \<Rightarrow> present CSec c))) (Stopped full)"
  by (cases FSec; cases CSec) (simp_all add: present_def Logged_logged hoareE_returnE)

lemma Logged_Ctor:
  "hoareE (Logged cs) (whenSec Sec (\<lambda>C. doE (\<lambda>s. snd (logged c (doE (g C)) s))))
     (\<lambda>_. Logged (cs @ present Sec c)) R"
  by (rule hoareE_whenSec)
     (auto simp: present_def hoareE_def doE_def logged_def Logged_def succeeded_def failureOf_def)

lemma Logged_start:
  "prefix cs full \<Longrightarrow> (\<And>x. Sec = Some x \<Longrightarrow> prefix (cs @ [c]) full) \<Longrightarrow>
   hoareE (Logged cs)
     (case Sec of None \<Rightarrow> returnE ()
      | Some Idx \<Rightarrow>
          bindE (derefModInst A) (\<lambda>_.
          thenE (doE (updateModInst A (setStartIdx Idx)))
         (bindE (derefModInst A) (\<lambda>MI.
          case getStartAddr MI of
            None \<Rightarrow> (\<lambda>s. (Inl Undefined, s))
          | Some Addr' \<Rightarrow>
              (\<lambda>s. case getFunction (StoreMgr s) Addr' of
                     Inl _ \<Rightarrow> (Inl Undefined, s)
                   | Inr FuncInst \<Rightarrow> logged c (f FuncInst) s)))))
     (\<lambda>_. Logged (cs @ present Sec c)) (Stopped full)"
proof (cases Sec)
  case None
  then show ?thesis by (simp add: present_def hoareE_returnE)
next
  case (Some Idx)
  assume p: "prefix cs full" and q: "\<And>x. Sec = Some x \<Longrightarrow> prefix (cs @ [c]) full"
  have pc: "prefix (cs @ [c]) full" using q Some by blast
  have last: "hoareE (Logged cs)
        (case getStartAddr MI of
            None \<Rightarrow> (\<lambda>s. (Inl Undefined, s))
          | Some Addr' \<Rightarrow>
              (\<lambda>s. case getFunction (StoreMgr s) Addr' of
                     Inl _ \<Rightarrow> (Inl Undefined, s)
                   | Inr FuncInst \<Rightarrow> logged c (f FuncInst) s))
        (\<lambda>_. Logged (cs @ [c])) (Stopped full)" for MI
  proof (cases "getStartAddr MI")
    case None
    then show ?thesis by (simp add: hoareE_def Logged_Stopped [OF p])
  next
    case (Some A')
    show ?thesis
      unfolding Some option.case hoareE_def
    proof (intro allI impI)
      fix s :: "(Event list) Machine_scheme"
      assume L: "Logged cs s"
      show "case (case getFunction (StoreMgr s) A' of
                   Inl _ \<Rightarrow> (Inl Undefined, s)
                 | Inr FuncInst \<Rightarrow> logged c (f FuncInst) s) of
              (Inl f, s') \<Rightarrow> Stopped full f s'
            | (Inr x, s') \<Rightarrow> Logged (cs @ [c]) s'"
      proof (cases "getFunction (StoreMgr s) A'")
        case (Inl e)
        then show ?thesis by (simp add: Logged_Stopped [OF p L])
      next
        case (Inr F)
        then show ?thesis using hoareE_D [OF Logged_logged [OF pc] L] by simp
      qed
    qed
  qed
  show ?thesis
    unfolding Some option.case present_def
    apply (rule hoareE_bindE [OF Logged_derefModInst [OF p]])
    apply (rule hoareE_thenE [OF Logged_doE])
     apply simp
    apply (rule hoareE_bindE [OF Logged_derefModInst [OF p]])
    apply (rule last)
    done
qed

subsection \<open>The run of instantiate\<close>

text \<open>
  When the name is found after the reset, \<open>instantiate\<close> returns \<open>ModuleNameConflict\<close>, and
  the state is the one the three resets leave.
\<close>

lemma instantiate_conflict:
  "findModule E (s\<lparr>StoreMgr := StoreManager_reset (StoreMgr s), StackMgr := [], InstrPdr := []\<rparr>) Name = Some a \<Longrightarrow>
   instantiate E Mod Name s =
     (Inl (Unexpect ModuleNameConflict),
      s\<lparr>StoreMgr := StoreManager_reset (StoreMgr s), StackMgr := [], InstrPdr := []\<rparr>)"
  by (simp add: instantiate_def Let_def StackManager_reset_def InstrProvider_reset_def)

lemma hoareE_post:
  "hoareE P m Q' R \<Longrightarrow> (\<And>x s. Q' x s \<Longrightarrow> Q x s) \<Longrightarrow> hoareE P m Q R"
  by (fastforce simp: hoareE_def split: prod.splits sum.splits)

lemma truncate_resets:
  "Machine.truncate ((Machine.extend s l)
      \<lparr>StoreMgr := StoreManager_reset (StoreMgr (Machine.extend s l)), StackMgr := [], InstrPdr := []\<rparr>)
   = s\<lparr>StoreMgr := StoreManager_reset (StoreMgr s), StackMgr := [], InstrPdr := []\<rparr>"
  by (simp add: Machine.defs)

lemma trace_conflict:
  assumes "findModule E (s\<lparr>StoreMgr := StoreManager_reset (StoreMgr s), StackMgr := [], InstrPdr := []\<rparr>) Name = Some a"
  shows "instantiate (traced E) Mod Name (Machine.extend s []) =
     (Inl (Unexpect ModuleNameConflict),
      Machine.extend (s\<lparr>StoreMgr := StoreManager_reset (StoreMgr s), StackMgr := [], InstrPdr := []\<rparr>) [])"
proof -
  have "findModule (traced E) ((Machine.extend s ([] :: Event list))
      \<lparr>StoreMgr := StoreManager_reset (StoreMgr (Machine.extend s ([] :: Event list))),
        StackMgr := [], InstrPdr := []\<rparr>) Name = Some a"
    using assms by (simp add: truncate_resets)
  from instantiate_conflict [OF this] show ?thesis
    by (simp add: Machine.defs)
qed

text \<open>
  The run after the name check, statement by statement: the calls follow \<open>callsOf\<close>.
\<close>

lemma trace_pipeline:
  assumes None: "findModule E (s\<lparr>StoreMgr := StoreManager_reset (StoreMgr s), StackMgr := [], InstrPdr := []\<rparr>) Name = None"
  shows "case instantiate (traced E) Mod Name (Machine.extend s []) of
     (Inl f, s') \<Rightarrow> Stopped (callsOf Mod) f s'
   | (Inr x, s') \<Rightarrow> Logged (callsOf Mod) s'"
proof -
  have None': "findModule E (Machine.truncate ((Machine.extend s ([] :: Event list))
      \<lparr>StoreMgr := StoreManager_reset (StoreMgr (Machine.extend s ([] :: Event list))),
        StackMgr := [], InstrPdr := []\<rparr>)) Name = None"
    using None by (simp add: truncate_resets)
  note pf = callsOf_def present_def
  show ?thesis
    apply (simp add: instantiate_def None' Let_def enter_if enterModule_def
        StackManager_reset_def InstrProvider_reset_def)
    unfolding traced_simps
    apply (rule hoareE_D [where P = "Logged []"])
     apply (rule hoareE_bindE [OF Logged_derefModInst]) apply simp
     apply (rule hoareE_thenE) apply (rule hoareE_whenSec [where Q = "\<lambda>_. Logged []"]) apply simp
       apply (rule Logged_doE) apply simp
     apply (rule hoareE_thenE) apply (rule Logged_whenSec) apply (simp add: pf)
     apply (rule hoareE_thenE) apply (rule Logged_FunctionSec) apply (simp add: pf)
     apply (rule hoareE_thenE) apply (rule Logged_whenSec) apply (simp add: pf)
     apply (rule hoareE_thenE) apply (rule Logged_whenSec) apply (simp add: pf)
     apply (rule hoareE_thenE) apply (rule Logged_whenSec) apply (simp add: pf)
     apply (rule hoareE_bindE) apply (rule Logged_derefModInst) apply (simp add: pf)
     apply (rule hoareE_thenE) apply (rule Logged_doE) apply simp
     apply (rule hoareE_bindE) apply (rule Logged_resolve) apply (simp add: pf)
     apply (rule hoareE_bindE) apply (rule Logged_resolve) apply (simp add: pf)
     apply (rule hoareE_thenE) apply (rule Logged_doE) apply simp
     apply (rule hoareE_thenE) apply (rule Logged_whenSec) apply (simp add: pf)
     apply (rule hoareE_thenE) apply (rule Logged_whenSec) apply (simp add: pf)
     apply (rule hoareE_thenE) apply (rule Logged_whenSec) apply (simp add: pf)
     apply (rule hoareE_thenE) apply (rule Logged_Ctor)
     apply (rule hoareE_post) apply (rule Logged_start) apply (simp add: pf) apply (simp add: pf)
     apply (simp add: callsOf_def)
    apply (simp add: Logged_def)
    done
qed

subsection \<open>The wrapped environment behaves as the environment\<close>

lemma simE_D: "simE m' m \<Longrightarrow> t = Machine.truncate s \<Longrightarrow> apsnd Machine.truncate (m' s) = m t"
  by (simp add: simE_def)

lemma simE_bindE:
  assumes "simE m' m" and "\<And>x. simE (k' x) (k x)"
  shows "simE (bindE m' k') (bindE m k)"
  unfolding simE_def
proof
  fix s
  have a: "apsnd Machine.truncate (m' s) = m (Machine.truncate s)"
    using assms(1) by (simp add: simE_def)
  show "apsnd Machine.truncate (bindE m' k' s) = bindE m k (Machine.truncate s)"
  proof (cases "m' s")
    case (Pair r s1)
    with a have b: "m (Machine.truncate s) = (r, Machine.truncate s1)" by simp
    show ?thesis
    proof (cases r)
      case (Inl f)
      then show ?thesis using Pair b by (simp add: bindE_def)
    next
      case (Inr x)
      then show ?thesis using Pair b assms(2) [of x] by (simp add: bindE_def simE_def)
    qed
  qed
qed

lemma simE_thenE: "simE m' m \<Longrightarrow> simE k' k \<Longrightarrow> simE (thenE m' k') (thenE m k)"
  unfolding thenE_def by (rule simE_bindE)

lemma simE_returnE: "simE (returnE x) (returnE x)"
  by (simp add: simE_def returnE_def)

lemma simE_doE: "(\<And>s. Machine.truncate (f' s) = f (Machine.truncate s)) \<Longrightarrow> simE (doE f') (doE f)"
  by (simp add: simE_def doE_def)

lemma simE_case_option:
  "simE a' a \<Longrightarrow> (\<And>x. simE (b' x) (b x)) \<Longrightarrow>
   simE (case Sec of None \<Rightarrow> a' | Some x \<Rightarrow> b' x) (case Sec of None \<Rightarrow> a | Some x \<Rightarrow> b x)"
  by (cases Sec) simp_all

lemma simE_whenSec: "(\<And>x. simE (f' x) (f x)) \<Longrightarrow> simE (whenSec Sec f') (whenSec Sec f)"
  unfolding whenSec_def by (rule simE_case_option [OF simE_returnE])

lemma StoreMgr_truncate [simp]: "StoreMgr (Machine.truncate s) = StoreMgr s"
  and StackMgr_truncate [simp]: "StackMgr (Machine.truncate s) = StackMgr s"
  and InstrPdr_truncate [simp]: "InstrPdr (Machine.truncate s) = InstrPdr s"
  and InsMode_truncate [simp]: "InsMode (Machine.truncate s) = InsMode s"
  by (simp_all add: Machine.defs)

lemma StoreMgr_extend [simp]: "StoreMgr (Machine.extend t l) = StoreMgr t"
  and StackMgr_extend [simp]: "StackMgr (Machine.extend t l) = StackMgr t"
  and InstrPdr_extend [simp]: "InstrPdr (Machine.extend t l) = InstrPdr t"
  and InsMode_extend [simp]: "InsMode (Machine.extend t l) = InsMode t"
  by (simp_all add: Machine.defs)

lemma truncate_updates [simp]:
  "Machine.truncate (s\<lparr>StoreMgr := a\<rparr>) = (Machine.truncate s)\<lparr>StoreMgr := a\<rparr>"
  "Machine.truncate (s\<lparr>StackMgr := b\<rparr>) = (Machine.truncate s)\<lparr>StackMgr := b\<rparr>"
  "Machine.truncate (s\<lparr>InstrPdr := c\<rparr>) = (Machine.truncate s)\<lparr>InstrPdr := c\<rparr>"
  by (simp_all add: Machine.defs)

lemma truncate_updateModInst [simp]:
  "Machine.truncate (updateModInst A f s) = updateModInst A f (Machine.truncate s)"
  by (simp add: updateModInst_def)

lemma truncate_foldl_updateModInst [simp]:
  "Machine.truncate (foldl (\<lambda>s' x. updateModInst A (g x) s') s xs)
     = foldl (\<lambda>s' x. updateModInst A (g x) s') (Machine.truncate s) xs"
  by (induction xs arbitrary: s) simp_all

lemma simE_derefModInst: "simE (derefModInst A) (derefModInst A)"
  by (simp add: simE_def derefModInst_def split: sum.splits)

lemma simE_logged: "simE (logged c f) f"
  by (simp add: simE_def logged_def split: prod.splits)

lemma truncate_logged_doE [simp]:
  "Machine.truncate (snd (logged c (doE g) s)) = g (Machine.truncate s)"
  by (simp add: logged_def doE_def)

lemma simE_fail: "simE (\<lambda>s. (Inl f, s)) (\<lambda>s. (Inl f, s))"
  by (simp add: simE_def)

lemma simE_getFunction:
  "(\<And>F. simE (k' F) (k F)) \<Longrightarrow>
   simE (\<lambda>s. case getFunction (StoreMgr s) A of Inl _ \<Rightarrow> (Inl Undefined, s) | Inr F \<Rightarrow> k' F s)
        (\<lambda>s. case getFunction (StoreMgr s) A of Inl _ \<Rightarrow> (Inl Undefined, s) | Inr F \<Rightarrow> k F s)"
  by (simp add: simE_def split: sum.splits)

lemmas simE_rules = simE_bindE simE_thenE simE_whenSec simE_case_option simE_returnE simE_doE
  simE_derefModInst simE_logged simE_fail simE_getFunction

text \<open>
  Wrapping the environment changes neither the result nor the state of \<open>instantiate\<close>.
\<close>

lemma traced_simulates:
  "apsnd Machine.truncate (instantiate (traced E) Mod Name (Machine.extend s l)) = instantiate E Mod Name s"
proof (cases "findModule E (s\<lparr>StoreMgr := StoreManager_reset (StoreMgr s), StackMgr := [], InstrPdr := []\<rparr>) Name")
  case (Some a)
  have Some': "findModule (traced E) ((Machine.extend s l)
      \<lparr>StoreMgr := StoreManager_reset (StoreMgr (Machine.extend s l)),
        StackMgr := [], InstrPdr := []\<rparr>) Name = Some a"
    using Some by (simp add: truncate_resets)
  show ?thesis
    by (simp add: instantiate_conflict [OF Some'] instantiate_conflict [OF Some])
next
  case None
  show ?thesis
    apply (simp add: instantiate_def None Let_def enter_if enterModule_def
        StackManager_reset_def InstrProvider_reset_def)
    unfolding traced_simps
    apply (rule simE_D)
     apply (intro simE_rules)
      apply simp_all
    done
qed

section \<open>The order of the pipeline and what a failure leaves\<close>

lemma present_set: "c' \<in> set (present Sec c) \<Longrightarrow> c' = c"
  by (cases Sec) (simp_all add: present_def)

lemma callsOf_sorted: "sorted_wrt (\<lambda>c c'. rank c < rank c') (callsOf Mod)"
  unfolding callsOf_def
  by (cases "FunctionSec Mod")
     (auto simp: sorted_wrt_append dest!: present_set, auto simp: present_def split: option.splits)

lemma list_all_butlast: "list_all P xs \<Longrightarrow> list_all P (butlast xs)"
  by (auto simp: list_all_iff dest: in_set_butlastD)

lemma sorted_wrt_prefix: "prefix xs ys \<Longrightarrow> sorted_wrt P ys \<Longrightarrow> sorted_wrt P xs"
  by (auto simp: prefix_def sorted_wrt_append)

lemma run_fst: "fst (instantiate (traced E) Mod Name (Machine.extend s l)) = fst (instantiate E Mod Name s)"
  using traced_simulates [of E Mod Name s l, THEN arg_cong, of fst] by simp

lemma run_snd: "Machine.truncate (snd (instantiate (traced E) Mod Name (Machine.extend s l))) = snd (instantiate E Mod Name s)"
  using traced_simulates [of E Mod Name s l, THEN arg_cong, of snd] by simp

text \<open>
  C5. Whatever the functions of the environment do, the calls \<open>instantiate\<close> makes are a prefix
  of the calls the module asks for, in the order of the pipeline: imports before local
  functions before globals before tables before memories, these before the offsets of the
  element and data segments, the offsets before the writes of the element and data segments,
  the writes before the exports, the exports before the constructor and the start function.
  Every call but the last one made has succeeded, so a step runs only when all earlier steps
  succeeded; and when \<open>instantiate\<close> succeeds, every call the module asks for was made and
  succeeded.
\<close>

theorem pipeline_order:
  "prefix (map fst (callLog E Mod Name s)) (callsOf Mod)
   \<and> sorted_wrt (\<lambda>c c'. rank c < rank c') (map fst (callLog E Mod Name s))
   \<and> list_all succeeded (butlast (callLog E Mod Name s))
   \<and> (fst (instantiate E Mod Name s) = Inr () \<longrightarrow>
        map fst (callLog E Mod Name s) = callsOf Mod \<and> list_all succeeded (callLog E Mod Name s))"
proof -
  obtain r s' where run: "instantiate (traced E) Mod Name (Machine.extend s []) = (r, s')"
    by (cases "instantiate (traced E) Mod Name (Machine.extend s [])")
  have r: "fst (instantiate E Mod Name s) = r"
    using run_fst [of E Mod Name s "[]"] run by simp
  have log: "callLog E Mod Name s = Machine.more s'"
    by (simp add: callLog_def run)
  have main: "prefix (map fst (Machine.more s')) (callsOf Mod)
      \<and> list_all succeeded (butlast (Machine.more s'))
      \<and> (r = Inr () \<longrightarrow> map fst (Machine.more s') = callsOf Mod \<and> list_all succeeded (Machine.more s'))"
  proof (cases "findModule E (s\<lparr>StoreMgr := StoreManager_reset (StoreMgr s), StackMgr := [], InstrPdr := []\<rparr>) Name")
    case (Some a)
    from trace_conflict [OF Some, where Mod = Mod] run show ?thesis by auto
  next
    case None
    from trace_pipeline [OF None, where Mod = Mod] run show ?thesis
      by (cases r) (auto simp: Stopped_def Logged_def list_all_butlast)
  qed
  then show ?thesis
    unfolding log r using sorted_wrt_prefix [OF _ callsOf_sorted] by blast
qed

text \<open>
  C2, as the code has it. \<open>instantiate\<close> has no rollback. When the name check has passed and
  \<open>instantiate\<close> returns an error code, the last call it made is the call that returned this
  error code, and the Store \<open>instantiate\<close> returns is the Store as that call left it: nothing
  that was entered or allocated before is reclaimed.
\<close>

theorem failure_leaves_store:
  assumes check: "findModule E (s\<lparr>StoreMgr := StoreManager_reset (StoreMgr s), StackMgr := [], InstrPdr := []\<rparr>) Name = None"
      and fail: "instantiate E Mod Name s = (Inl (Unexpect e), s')"
  shows "\<exists>c t. callLog E Mod Name s \<noteq> []
           \<and> last (callLog E Mod Name s) = (c, Some (Unexpect e), t) \<and> StoreMgr s' = StoreMgr t"
proof -
  obtain r t where run: "instantiate (traced E) Mod Name (Machine.extend s []) = (r, t)"
    by (cases "instantiate (traced E) Mod Name (Machine.extend s [])")
  have r: "r = Inl (Unexpect e)"
    using run_fst [of E Mod Name s "[]"] run fail by simp
  have t: "Machine.truncate t = s'"
    using run_snd [of E Mod Name s "[]"] run fail by simp
  from trace_pipeline [OF check, where Mod = Mod] run r t show ?thesis
    by (auto simp: Stopped_def callLog_def)
qed

section \<open>The reset on entry\<close>

text \<open>
  C1, as the code has it. \<open>instantiate\<close> resets the Store as well as the Stack and the
  instruction provider before anything else: a call on a state is the call on the state with
  the three resets applied, and when the name check stops the call, the state returned is the
  reset one.
\<close>

theorem instantiate_resets_store:
  "instantiate E Mod Name s =
     instantiate E Mod Name
       (s\<lparr>StoreMgr := StoreManager_reset (StoreMgr s), StackMgr := StackManager_reset (StackMgr s),
          InstrPdr := InstrProvider_reset (InstrPdr s)\<rparr>)
   \<and> (case findModule E (s\<lparr>StoreMgr := StoreManager_reset (StoreMgr s), StackMgr := [], InstrPdr := []\<rparr>) Name of
        Some a \<Rightarrow> snd (instantiate E Mod Name s) =
                   s\<lparr>StoreMgr := StoreManager_reset (StoreMgr s), StackMgr := [], InstrPdr := []\<rparr>
      | None \<Rightarrow> True)"
proof (cases "findModule E (s\<lparr>StoreMgr := StoreManager_reset (StoreMgr s), StackMgr := [], InstrPdr := []\<rparr>) Name")
  case (Some a)
  then show ?thesis
    by (simp add: instantiate_def Let_def StoreManager_reset_idem StackManager_reset_def
        InstrProvider_reset_def)
next
  case None
  then show ?thesis
    by (simp add: instantiate_def Let_def StoreManager_reset_idem StackManager_reset_def
        InstrProvider_reset_def)
qed

section \<open>Function section without Code section\<close>

text \<open>
  C9. When the Function section or the Code section is missing, \<open>instantiate\<close> behaves as on
  the module with neither of them, so no local function is allocated and no error comes
  from the missing section; and the result does not depend on the function that instantiates
  the local functions, which is never called.
\<close>

theorem function_step_skipped:
  assumes "FunctionSec Mod = None \<or> CodeSec Mod = None"
  shows "instantiate E Mod Name s = instantiate E (Mod\<lparr>FunctionSec := None, CodeSec := None\<rparr>) Name s
       \<and> instantiate (E\<lparr>instantiate_FunctionSec := f\<rparr>) Mod Name s = instantiate E Mod Name s"
proof -
  have h: "(case FunctionSec Mod of None \<Rightarrow> returnE ()
         | Some FuncSec \<Rightarrow> (case CodeSec Mod of None \<Rightarrow> returnE ()
            | Some CodeSec' \<Rightarrow> g FuncSec CodeSec')) = returnE ()" for g :: "u32 list \<Rightarrow> 'a list \<Rightarrow> (unit, 'z Machine_scheme) Step"
    using assms by (auto split: option.splits)
  show ?thesis
    by (simp add: instantiate_def h cong: option.case_cong sum.case_cong)
qed

section \<open>Module names\<close>


section \<open>The start function\<close>

lemma continuesWith_base: "continuesWith k (returnE ()) k"
  unfolding continuesWith_def thenE_def by (rule ext) (simp add: bindE_def returnE_def)

lemma continuesWith_bindE:
  "(\<And>x. continuesWith (b' x) (b x) k) \<Longrightarrow> continuesWith (bindE a b') (bindE a b) k"
  unfolding continuesWith_def thenE_def bindE_def
  by (rule ext) (simp split: prod.splits sum.splits)

lemma continuesWith_thenE:
  "continuesWith b' b k \<Longrightarrow> continuesWith (thenE a b') (thenE a b) k"
  unfolding thenE_def [of a] by (rule continuesWith_bindE)

lemma continuesWith_D:
  "continuesWith m' m k \<Longrightarrow> (\<And>s1. k s1 = g s1) \<Longrightarrow>
   m' s = (case m s of (Inl f, s1) \<Rightarrow> (Inl f, s1) | (Inr x, s1) \<Rightarrow> g s1)"
  by (simp add: continuesWith_def thenE_def bindE_def split: prod.splits sum.splits)

lemma whenSec_None: "whenSec None f = returnE ()"
  by (simp add: whenSec_def)

lemma thenE_returnE: "thenE (returnE ()) k = k"
  unfolding thenE_def by (rule ext) (simp add: bindE_def returnE_def)

text \<open>
  C6. With a Start section: \<open>instantiate\<close> is \<open>instantiate\<close> on the module without its
  Start section, followed, when that succeeds, by the start function. The index is resolved
  through the function address space of the new instance to a Store address, the function at
  that address is run by \<open>runFunction\<close> with no arguments, and what \<open>runFunction\<close> returns,
  a trap included, is what \<open>instantiate\<close> returns. The source dereferences the results of
  \<open>getStartAddr\<close> and \<open>getFunction\<close> without a test, so an index or address out of range is
  undefined behaviour.
  Without a Start section: \<open>instantiate\<close> is \<open>instantiate\<close> on the module without its Export
  section and its constructor, followed, when that succeeds, by the publication of the
  exports, which may fail, and then by the call of the constructor if there is one; the
  result is success, with the state the constructor leaves, and nothing else is done.
\<close>

theorem start_function:
  "instantiate E Mod Name s =
    (case instantiate E (Mod\<lparr>StartSec := None\<rparr>) Name s of
       (Inl f, s1) \<Rightarrow> (Inl f, s1)
     | (Inr _, s1) \<Rightarrow>
        (case StartSec Mod of
           None \<Rightarrow> (Inr (), s1)
         | Some Idx \<Rightarrow>
            (case getModule (StoreMgr s1) (newModInstAddr s Name) of
               Inl _ \<Rightarrow> (Inl Undefined, s1)
             | Inr ModInst \<Rightarrow>
                (let s2 = updateModInst (newModInstAddr s Name) (setStartIdx Idx) s1
                 in if unat Idx < length (FuncAddrs ModInst)
                    then (case getFunction (StoreMgr s1) (FuncAddrs ModInst ! unat Idx) of
                            Inl _ \<Rightarrow> (Inl Undefined, s2)
                          | Inr FuncInst \<Rightarrow> runFunction E FuncInst [] s2)
                    else (Inl Undefined, s2)))))
   \<and> (StartSec Mod = None \<longrightarrow>
        instantiate E Mod Name s =
          (case instantiate E (Mod\<lparr>ExportSec := None, Ctor := None\<rparr>) Name s of
             (Inl f, s1) \<Rightarrow> (Inl f, s1)
           | (Inr _, s1) \<Rightarrow>
              (case (case ExportSec Mod of
                       None \<Rightarrow> (Inr (), s1)
                     | Some ExpSec \<Rightarrow> instantiate_ExportSec E (newModInstAddr s Name) ExpSec s1) of
                 (Inl f, s2) \<Rightarrow> (Inl f, s2)
               | (Inr _, s2) \<Rightarrow>
                   (Inr (), case Ctor Mod of None \<Rightarrow> s2 | Some Ctor' \<Rightarrow> CtorFunc E Ctor' s2))))"
proof (cases "findModule E (s\<lparr>StoreMgr := StoreManager_reset (StoreMgr s), StackMgr := [], InstrPdr := []\<rparr>) Name")
  case (Some a)
  show ?thesis
    by (simp add: instantiate_conflict [OF Some])
next
  case None
  have A: "newModInstAddr s Name = of_nat (length (ModInsts (StoreManager_reset (StoreMgr s))))"
    by (simp add: newModInstAddr_def enter_if enterModule_def Let_def)
  have start: "instantiate E Mod Name s =
    (case instantiate E (Mod\<lparr>StartSec := None\<rparr>) Name s of
       (Inl f, s1) \<Rightarrow> (Inl f, s1)
     | (Inr _, s1) \<Rightarrow>
        (case StartSec Mod of
           None \<Rightarrow> (Inr (), s1)
         | Some Idx \<Rightarrow>
            (case getModule (StoreMgr s1) (newModInstAddr s Name) of
               Inl _ \<Rightarrow> (Inl Undefined, s1)
             | Inr ModInst \<Rightarrow>
                (let s2 = updateModInst (newModInstAddr s Name) (setStartIdx Idx) s1
                 in if unat Idx < length (FuncAddrs ModInst)
                    then (case getFunction (StoreMgr s1) (FuncAddrs ModInst ! unat Idx) of
                            Inl _ \<Rightarrow> (Inl Undefined, s2)
                          | Inr FuncInst \<Rightarrow> runFunction E FuncInst [] s2)
                    else (Inl Undefined, s2)))))"
    unfolding A
    apply (simp add: instantiate_def None Let_def enter_if enterModule_def
        StackManager_reset_def InstrProvider_reset_def cong: option.case_cong)
    apply (rule continuesWith_D)
     apply (intro continuesWith_bindE continuesWith_thenE)
     apply (rule continuesWith_base)
    apply (simp add: bindE_def thenE_def doE_def returnE_def derefModInst_def getModule_def
        updateModInst_def getStartAddr_def setStartIdx_def getFunction_def
        split: option.splits sum.splits)
    done
  have nostart: "instantiate E Mod Name s =
          (case instantiate E (Mod\<lparr>ExportSec := None, Ctor := None\<rparr>) Name s of
             (Inl f, s1) \<Rightarrow> (Inl f, s1)
           | (Inr _, s1) \<Rightarrow>
              (case (case ExportSec Mod of
                       None \<Rightarrow> (Inr (), s1)
                     | Some ExpSec \<Rightarrow> instantiate_ExportSec E (newModInstAddr s Name) ExpSec s1) of
                 (Inl f, s2) \<Rightarrow> (Inl f, s2)
               | (Inr _, s2) \<Rightarrow>
                   (Inr (), case Ctor Mod of None \<Rightarrow> s2 | Some Ctor' \<Rightarrow> CtorFunc E Ctor' s2)))"
    if St: "StartSec Mod = None"
    unfolding A
    apply (simp add: instantiate_def None St Let_def enter_if enterModule_def
        StackManager_reset_def InstrProvider_reset_def whenSec_None thenE_returnE
        cong: option.case_cong)
    apply (rule continuesWith_D)
     apply (intro continuesWith_bindE continuesWith_thenE)
     apply (rule continuesWith_base)
    apply (simp add: bindE_def thenE_def doE_def returnE_def whenSec_def
        split: option.splits sum.splits prod.splits)
    done
  from start nostart show ?thesis by blast
qed

section \<open>Concrete runs\<close>

lemmas run_defs = instantiate_def Let_def bindE_def thenE_def returnE_def doE_def whenSec_def
  derefModInst_def updateModInst_def
  StoreManager_reset_def StackManager_reset_def InstrProvider_reset_def find_module_def
  pushModule_def importModule_def enterModule_def ModuleInstance_new_def getModule_def
  getFunction_def allocateFunction_def pushFrame_def popFrame_def addFuncType_def
  getParamTypes_def getReturnTypes_def setStartIdx_def getStartAddr_def
  env0_def emptyModule_def emptyStore_def machine0_def

text \<open>
  C2, as the specification states it, fails. The module has one local function and one
  global, and the global step fails with \<open>InvalidInitializer\<close> after the function was
  allocated. The Store was empty before the call; on return the function is still in the
  function arena and the module instance in the module arena.
\<close>

theorem no_rollback_counterexample:
  "fst (instantiate envGlobalFails modFuncGlobal ''m'' machine0) = Inl (Unexpect InvalidInitializer)
   \<and> FuncInsts (StoreMgr machine0) = []
   \<and> FuncInsts (StoreMgr (snd (instantiate envGlobalFails modFuncGlobal ''m'' machine0)))
        = [\<lparr>FuncModAddr = 0, FuncTypeIdx = 0, FuncBody = 7\<rparr>]
   \<and> ModInsts (StoreMgr machine0) = []
   \<and> map ModInstName (ModInsts (StoreMgr (snd (instantiate envGlobalFails modFuncGlobal ''m'' machine0)))) = [''m'']"
  by (simp add: run_defs envAlloc_def envGlobalFails_def modFuncGlobal_def)

text \<open>
  C4 at a failing input. The module has an element section whose offsets cannot be evaluated:
  \<open>resolveExpression\<close> fails with \<open>InvalidInitializer\<close>, \<open>instantiate\<close> returns this error at
  once, and the frame pushed for the evaluation is still on the Stack. When the evaluation
  succeeds the frame is popped.
\<close>

theorem frame_left_on_failure:
  "instantiate envOffsetFails modElement ''m'' machine0 =
     (Inl (Unexpect InvalidInitializer),
      snd (instantiate envOffsetFails modElement ''m'' machine0))
   \<and> StackMgr (snd (instantiate envOffsetFails modElement ''m'' machine0)) = [FrameEntry 0 0 0]
   \<and> fst (instantiate env0 modElement ''m'' machine0) = Inr ()
   \<and> StackMgr (snd (instantiate env0 modElement ''m'' machine0)) = []"
  by (simp add: run_defs envOffsetFails_def modElement_def)

text \<open>
  C1, as the specification states it, fails. A module named \<open>env\<close> is in the module arena.
  A call with another name succeeds and leaves only the new instance in the module arena:
  the registered module is no longer present.
\<close>

theorem store_reset_counterexample:
  "map ModInstName (ModInsts (StoreMgr machineEnv)) = [''env'']
   \<and> fst (instantiate env0 emptyModule ''m'' machineEnv) = Inr ()
   \<and> map ModInstName (ModInsts (StoreMgr (snd (instantiate env0 emptyModule ''m'' machineEnv)))) = [''m'']"
  by (simp add: run_defs machineEnv_def)


lemmas log_defs = callLog_def traced_def logged_def failureOf_def Machine.defs

lemma machineHost_found:
  "findModule envHost (machineHost\<lparr>StoreMgr := StoreManager_reset (StoreMgr machineHost), StackMgr := [], InstrPdr := []\<rparr>) ''env'' = Some 0"
  by (simp add: envHost_def machineHost_def Machine.defs)

text \<open>
  C1, witness: the call with the name \<open>env\<close> on the state in which \<open>env\<close> is registered and
  the host keeps the name.
\<close>

theorem instantiate_resets_store_witness:
  "findModule envHost (machineHost\<lparr>StoreMgr := StoreManager_reset (StoreMgr machineHost), StackMgr := [], InstrPdr := []\<rparr>) ''env'' = Some 0
   \<and> instantiate envHost emptyModule ''env'' machineHost =
       instantiate envHost emptyModule ''env''
         (machineHost\<lparr>StoreMgr := StoreManager_reset (StoreMgr machineHost),
            StackMgr := StackManager_reset (StackMgr machineHost),
            InstrPdr := InstrProvider_reset (InstrPdr machineHost)\<rparr>)
   \<and> snd (instantiate envHost emptyModule ''env'' machineHost) =
       machineHost\<lparr>StoreMgr := StoreManager_reset (StoreMgr machineHost), StackMgr := [], InstrPdr := []\<rparr>"
proof -
  note h = machineHost_found
  note t = instantiate_resets_store [of envHost emptyModule "''env''" machineHost]
  from t [THEN conjunct1] t [THEN conjunct2, unfolded h option.case] h show ?thesis
    by (intro conjI)
qed

text \<open>
  C2, witness: the run in which the global step fails after the function was allocated.
\<close>

theorem failure_leaves_store_witness:
  "findModule envGlobalFails (machine0\<lparr>StoreMgr := StoreManager_reset (StoreMgr machine0), StackMgr := [], InstrPdr := []\<rparr>) ''m'' = None
   \<and> fst (instantiate envGlobalFails modFuncGlobal ''m'' machine0) = Inl (Unexpect InvalidInitializer)
   \<and> (\<exists>c t. callLog envGlobalFails modFuncGlobal ''m'' machine0 \<noteq> []
          \<and> last (callLog envGlobalFails modFuncGlobal ''m'' machine0)
               = (c, Some (Unexpect InvalidInitializer), t)
          \<and> StoreMgr (snd (instantiate envGlobalFails modFuncGlobal ''m'' machine0)) = StoreMgr t)"
proof -
  have h1: "findModule envGlobalFails (machine0\<lparr>StoreMgr := StoreManager_reset (StoreMgr machine0), StackMgr := [], InstrPdr := []\<rparr>) ''m'' = None"
    by (simp add: envGlobalFails_def envAlloc_def env0_def machine0_def emptyStore_def
        find_module_def StoreManager_reset_def)
  have h2: "instantiate envGlobalFails modFuncGlobal ''m'' machine0 =
      (Inl (Unexpect InvalidInitializer), snd (instantiate envGlobalFails modFuncGlobal ''m'' machine0))"
    by (simp add: run_defs envAlloc_def envGlobalFails_def modFuncGlobal_def)
  from failure_leaves_store [OF h1 h2] h1 h2 show ?thesis
    by (metis fst_conv)
qed


text \<open>
  C5, witness: a successful run with nine calls, and the run that stops at the global step.
\<close>

theorem pipeline_order_witness:
  "fst (instantiate env0 modPipeline ''m'' machine0) = Inr ()
   \<and> map fst (callLog env0 modPipeline ''m'' machine0) =
        [Call_ImportSec, Call_GlobalSec, Call_MemorySec, Call_resolveElementSec,
         Call_resolveDataSec, Call_ElementSec, Call_DataSec, Call_ExportSec, Call_Ctor]
   \<and> list_all succeeded (callLog env0 modPipeline ''m'' machine0)
   \<and> map fst (callLog envGlobalFails modFuncGlobal ''m'' machine0) = [Call_FunctionSec, Call_GlobalSec]
   \<and> list_all succeeded (butlast (callLog envGlobalFails modFuncGlobal ''m'' machine0))"
proof -
  have h: "fst (instantiate env0 modPipeline ''m'' machine0) = Inr ()"
    by (simp add: run_defs modPipeline_def)
  have c: "callsOf modPipeline =
        [Call_ImportSec, Call_GlobalSec, Call_MemorySec, Call_resolveElementSec,
         Call_resolveDataSec, Call_ElementSec, Call_DataSec, Call_ExportSec, Call_Ctor]"
    by (simp add: callsOf_def present_def modPipeline_def emptyModule_def)
  have l: "map fst (callLog envGlobalFails modFuncGlobal ''m'' machine0) = [Call_FunctionSec, Call_GlobalSec]"
    by (simp add: log_defs run_defs envAlloc_def envGlobalFails_def modFuncGlobal_def)
  from pipeline_order [of env0 modPipeline "''m''" machine0]
       pipeline_order [of envGlobalFails modFuncGlobal "''m''" machine0] h c l
  show ?thesis by simp
qed

text \<open>
  C6, witness. The start function of the first module is its local function 0, and it traps.
  The second module has no Start section: its function is exported and it has a constructor;
  the call succeeds, the export is in the export map of the instance, and the constructor
  has run.
\<close>

theorem start_function_witness:
  "fst (instantiate envStartTraps (modStart\<lparr>StartSec := None\<rparr>) ''m'' machine0) = Inr ()
   \<and> instantiate envStartTraps modStart ''m'' machine0 =
       runFunction envStartTraps \<lparr>FuncModAddr = 0, FuncTypeIdx = 0, FuncBody = 7\<rparr> []
         (updateModInst 0 (setStartIdx 0)
            (snd (instantiate envStartTraps (modStart\<lparr>StartSec := None\<rparr>) ''m'' machine0)))
   \<and> fst (instantiate envStartTraps modStart ''m'' machine0) = Inl (Unexpect StartTrap)
   \<and> StartSec modExported = None
   \<and> fst (instantiate envPublish (modExported\<lparr>ExportSec := None, Ctor := None\<rparr>) ''m'' machine0) = Inr ()
   \<and> instantiate envPublish modExported ''m'' machine0 =
       (Inr (),
        CtorFunc envPublish 9
          (snd (instantiate_ExportSec envPublish 0
                  [\<lparr>ExpExtType = Function, ExpExtName = ''answer'', ExtIdx = 0, Symbol = None\<rparr>]
                  (snd (instantiate envPublish (modExported\<lparr>ExportSec := None, Ctor := None\<rparr>) ''m'' machine0)))))
   \<and> map ExportMap (ModInsts (StoreMgr (snd (instantiate envPublish modExported ''m'' machine0))))
        = [[(''answer'', Function, 0)]]
   \<and> InstrPdr (snd (instantiate envPublish modExported ''m'' machine0)) = [9]"
proof -
  have h: "instantiate envStartTraps (modStart\<lparr>StartSec := None\<rparr>) ''m'' machine0 =
      (Inr (), snd (instantiate envStartTraps (modStart\<lparr>StartSec := None\<rparr>) ''m'' machine0))"
    by (simp add: run_defs envAlloc_def envStartTraps_def modStart_def)
  have s1: "StoreMgr (snd (instantiate envStartTraps (modStart\<lparr>StartSec := None\<rparr>) ''m'' machine0)) =
     \<lparr>FuncInsts = [\<lparr>FuncModAddr = 0, FuncTypeIdx = 0, FuncBody = 7\<rparr>],
        TabInsts = [], MemInsts = [], GlobInsts = [],
        ModInsts =
          [\<lparr>ModInstName = ''m'', Addr = 0, FuncTypes = [([], [])],
              FuncAddrs = [0], TableAddrs = [], MemAddrs = [],
              GlobalAddrs = [], ExportMap = [], StartIdx = None\<rparr>],
        ModMap = [(''m'', Instantiate, 0)]\<rparr>"
    by (simp add: run_defs envAlloc_def envStartTraps_def modStart_def)
  have a: "newModInstAddr machine0 ''m'' = 0"
    by (simp add: newModInstAddr_def run_defs)
  have st: "StartSec modStart = Some 0"
    by (simp add: modStart_def)
  have t: "runFunction envStartTraps F [] t = (Inl (Unexpect StartTrap), t)" for F t
    by (simp add: envStartTraps_def)
  have eq: "instantiate envStartTraps modStart ''m'' machine0 =
       runFunction envStartTraps \<lparr>FuncModAddr = 0, FuncTypeIdx = 0, FuncBody = 7\<rparr> []
         (updateModInst 0 (setStartIdx 0)
            (snd (instantiate envStartTraps (modStart\<lparr>StartSec := None\<rparr>) ''m'' machine0)))"
    apply (subst start_function [THEN conjunct1])
    apply (subst h)
    apply (simp add: st a s1 getModule_def getFunction_def)
    done
  have hf: "fst (instantiate envStartTraps (modStart\<lparr>StartSec := None\<rparr>) ''m'' machine0) = Inr ()"
    by (subst h) simp
  have r: "fst (instantiate envStartTraps modStart ''m'' machine0) = Inl (Unexpect StartTrap)"
    unfolding eq t by simp
  have ns: "StartSec modExported = None"
    by (simp add: modExported_def emptyModule_def)
  have b: "instantiate envPublish (modExported\<lparr>ExportSec := None, Ctor := None\<rparr>) ''m'' machine0 =
      (Inr (), snd (instantiate envPublish (modExported\<lparr>ExportSec := None, Ctor := None\<rparr>) ''m'' machine0))"
    by (simp add: run_defs envAlloc_def envPublish_def modExported_def)
  have bf: "fst (instantiate envPublish (modExported\<lparr>ExportSec := None, Ctor := None\<rparr>) ''m'' machine0) = Inr ()"
    by (subst b) simp
  have ex: "ExportSec modExported =
      Some [\<lparr>ExpExtType = Function, ExpExtName = ''answer'', ExtIdx = 0, Symbol = None\<rparr>]"
    and ct: "Ctor modExported = Some 9"
    by (simp_all add: modExported_def emptyModule_def)
  have p: "instantiate_ExportSec envPublish A Sec t = (Inr (), snd (instantiate_ExportSec envPublish A Sec t))" for A Sec t
    by (simp add: envPublish_def doE_def)
  have eq2: "instantiate envPublish modExported ''m'' machine0 =
       (Inr (),
        CtorFunc envPublish 9
          (snd (instantiate_ExportSec envPublish 0
                  [\<lparr>ExpExtType = Function, ExpExtName = ''answer'', ExtIdx = 0, Symbol = None\<rparr>]
                  (snd (instantiate envPublish (modExported\<lparr>ExportSec := None, Ctor := None\<rparr>) ''m'' machine0)))))"
    apply (subst start_function [THEN conjunct2, rule_format, OF ns])
    apply (subst b)
    apply (simp add: ex ct a)
    apply (subst p)
    apply (simp add: ct)
    done
  have e1: "map ExportMap (ModInsts (StoreMgr (snd (instantiate envPublish modExported ''m'' machine0))))
        = [[(''answer'', Function, 0)]]"
    by (simp add: run_defs envAlloc_def envPublish_def modExported_def)
  have e2: "InstrPdr (snd (instantiate envPublish modExported ''m'' machine0)) = [9]"
    by (simp add: run_defs envAlloc_def envPublish_def modExported_def)
  from hf eq r ns bf eq2 e1 e2 show ?thesis by (intro conjI)
qed

text \<open>
  C9, witness: a module with a Function section and no Code section.
\<close>

theorem function_step_skipped_witness:
  "(FunctionSec modFuncOnly = None \<or> CodeSec modFuncOnly = None)
   \<and> instantiate envAlloc modFuncOnly ''m'' machine0 =
       instantiate envAlloc (modFuncOnly\<lparr>FunctionSec := None, CodeSec := None\<rparr>) ''m'' machine0
   \<and> instantiate (envAlloc\<lparr>instantiate_FunctionSec := (\<lambda>A F C s. (Inl (Unexpect BadAddress), s))\<rparr>)
         modFuncOnly ''m'' machine0 = instantiate envAlloc modFuncOnly ''m'' machine0"
proof -
  have h: "FunctionSec modFuncOnly = None \<or> CodeSec modFuncOnly = None"
    by (simp add: modFuncOnly_def emptyModule_def)
  from function_step_skipped [OF h] h show ?thesis by blast
qed

end
